theory Spec2Isabelle
  imports Complex_Main "HOL-Library.Word"
begin

section \<open>Exceptions, bytes and the transport\<close>

text \<open>
  The exceptions the device code raises or catches. The first five constructors are the
  members of \<open>BLEAK_EXCEPTIONS\<close> (the tuple \<open>BLEAK_RETRY_EXCEPTIONS\<close> of the transport
  library: \<open>AttributeError\<close>, \<open>BleakError\<close>, \<open>EOFError\<close>, \<open>BrokenPipeError\<close>,
  \<open>asyncio.TimeoutError\<close>); \<open>Exception\<close> stands for any other exception class. Each carries
  the text that \<open>str(ex)\<close> returns; the cause chain of \<open>raise ... from ex\<close> is not kept.

  Modelled from the spec: the module \<open>exceptions\<close> that declares \<open>DeviceConnectionError\<close>,
  \<open>DeviceConnectionTimeoutError\<close>, \<open>DeviceNotInPairingModeError\<close> and \<open>IncorrectAPIKeyError\<close>
  is not among the sources. Section 7 of the specification lists them as classes of their
  own beside the transport failures, so they are constructors outside \<open>BLEAK_EXCEPTIONS\<close>.
\<close>

datatype exn =
    BleakError string
  | AttributeError string
  | EOFError string
  | BrokenPipeError string
  | TimeoutError string
  | IndexError string
  | ValueError string
  | UnicodeDecodeError string
  | RuntimeError string
  | Exception string
  | DeviceConnectionError string
  | DeviceConnectionTimeoutError string
  | DeviceNotInPairingModeError
  | IncorrectAPIKeyError

fun BLEAK_EXCEPTIONS :: "exn \<Rightarrow> bool" where
  "BLEAK_EXCEPTIONS (BleakError m) = True"
| "BLEAK_EXCEPTIONS (AttributeError m) = True"
| "BLEAK_EXCEPTIONS (EOFError m) = True"
| "BLEAK_EXCEPTIONS (BrokenPipeError m) = True"
| "BLEAK_EXCEPTIONS (TimeoutError m) = True"
| "BLEAK_EXCEPTIONS e = False"

fun str :: "exn \<Rightarrow> string" where
  "str (BleakError m) = m"
| "str (AttributeError m) = m"
| "str (EOFError m) = m"
| "str (BrokenPipeError m) = m"
| "str (TimeoutError m) = m"
| "str (IndexError m) = m"
| "str (ValueError m) = m"
| "str (UnicodeDecodeError m) = m"
| "str (RuntimeError m) = m"
| "str (Exception m) = m"
| "str (DeviceConnectionError m) = m"
| "str (DeviceConnectionTimeoutError m) = m"
| "str DeviceNotInPairingModeError = []"
| "str IncorrectAPIKeyError = []"

type_synonym byte = "8 word"

text \<open>\<open>bytearray.hex()\<close>: two lower-case hexadecimal digits for each byte.\<close>

definition hexdigit :: "nat \<Rightarrow> char" where
  "hexdigit n = ''0123456789abcdef'' ! (n mod 16)"

fun hex :: "byte list \<Rightarrow> string" where
  "hex [] = []"
| "hex (b # bs) = hexdigit (unat b div 16) # hexdigit (unat b mod 16) # hex bs"

text \<open>The slice \<open>xs[i:j]\<close> for literal bounds \<open>0 \<le> i \<le> j\<close>: it never raises, and is
  shorter than \<open>j - i\<close> when the sequence ends early.\<close>

definition py_slice :: "nat \<Rightarrow> nat \<Rightarrow> 'a list \<Rightarrow> 'a list" where
  "py_slice i j xs = take (j - i) (drop i xs)"

text \<open>
  The GATT characteristics are named constants of the module \<open>device_const\<close>, which is not
  among the sources; only their identity matters, so they are the values of an enumeration.
\<close>

datatype characteristic =
    EVENT_CHARACTERISTIC_UUID
  | STATE_CHARACTERISTIC_UUID
  | SYSTEM_ID_DESCRIPTOR_UUID
  | MODEL_NUMBER_DESCRIPTOR_UUID
  | SOFTWARE_REVISION_DESCRIPTOR_UUID
  | MANUFACTURER_DESCRIPTOR_UUID

text \<open>
  What the code asks of the transport library: \<open>establish_connection\<close>, the context
  manager of \<open>BleakClient\<close> (\<open>Connect\<close> on entry, \<open>Disconnect\<close> on exit),
  \<open>client.disconnect()\<close>, \<open>write_gatt_char\<close>, \<open>read_gatt_char\<close> and \<open>start_notify\<close>.
\<close>

datatype request =
    Establish
  | Connect
  | Disconnect
  | Write characteristic "byte list"
  | Read characteristic
  | StartNotify characteristic

datatype io_result = IoOk "byte list" | IoErr exn

record DecoraBLEDeviceState =
  is_on :: bool
  brightness_level :: int

record DecoraBLEDeviceSummary =
  system_identifier :: string
  manufacturer :: string
  model :: string
  software_revision :: "string option"

text \<open>
  Everything observable from outside the device object, in the order it happens: each
  awaited transport call with its outcome, each \<open>asyncio.sleep\<close> with its duration in
  seconds, each invocation of a registered callback (callbacks are named by numbers),
  the \<open>asyncio.create_task\<close> that the configuration flow makes for a rediscovered device,
  and the hand-over to the entity's connect sequence.
\<close>

datatype event =
    Transport request io_result
  | Slept real
  | StateCallback nat DecoraBLEDeviceState
  | ConnectionCallback nat DecoraBLEDeviceSummary
  | ReconnectTaskCreated
  | StartConnection

text \<open>
  The environment. The transport is outside the program, so its behaviour is an arbitrary
  pair of functions of the number of awaits made so far: \<open>answers\<close> is what an awaited
  transport call returns or raises, \<open>alive\<close> is what \<open>client.is_connected\<close> reports. Every
  await (a transport call or a sleep) advances \<open>clock\<close> by one.
\<close>

record world =
  answers :: "nat \<Rightarrow> io_result"
  alive :: "nat \<Rightarrow> bool"
  clock :: nat
  trace :: "event list"

definition transport :: "request \<Rightarrow> world \<Rightarrow> io_result \<times> world" where
  "transport req w =
     (let r = answers w (clock w)
      in (r, w\<lparr>clock := clock w + 1, trace := trace w @ [Transport req r]\<rparr>))"

definition sleep :: "real \<Rightarrow> world \<Rightarrow> world" where
  "sleep d w = w\<lparr>clock := clock w + 1, trace := trace w @ [Slept d]\<rparr>"

text \<open>A world that answers from a finite script and succeeds with no data afterwards.\<close>

definition script :: "io_result list \<Rightarrow> bool list \<Rightarrow> world" where
  "script rs bs =
     \<lparr>answers = (\<lambda>n. if n < length rs then rs ! n else IoOk []),
      alive = (\<lambda>n. if n < length bs then bs ! n else True),
      clock = 0, trace = []\<rparr>"

section \<open>Key retrieval\<close>

text \<open>
  \<open>get_api_key\<close> (a static method). \<open>UNPAIRED_API_KEY\<close> is a constant of the absent module
  \<open>device_const\<close> and is a parameter here. The \<open>async with BleakClient(device)\<close> block
  connects on entry and disconnects on exit, whatever the body did; an exception of the
  exit replaces the body's result.
\<close>

definition get_api_key :: "byte list \<Rightarrow> world \<Rightarrow> (exn + string) \<times> world" where
  "get_api_key UNPAIRED_API_KEY w =
     (case transport Connect w of
        (IoErr e, w0) \<Rightarrow> (Inl e, w0)
      | (IoOk _, w0) \<Rightarrow>
          (let (body, w3) =
             (case transport (Write EVENT_CHARACTERISTIC_UUID
                     [0x22, 0x53, 0x00, 0x00, 0x00, 0x00, 0x00]) w0 of
                (IoErr e, w1) \<Rightarrow> (Inl e, w1)
              | (IoOk _, w1) \<Rightarrow>
                  (case transport (Read EVENT_CHARACTERISTIC_UUID) w1 of
                     (IoErr e, w2) \<Rightarrow> (Inl e, w2)
                   | (IoOk rawkey, w2) \<Rightarrow>
                       (if py_slice 2 6 rawkey \<noteq> UNPAIRED_API_KEY
                        then (Inr (hex (drop 2 rawkey)), w2)
                        else (Inl DeviceNotInPairingModeError, w2))))
           in (case transport Disconnect w3 of
                 (IoErr e, w4) \<Rightarrow> (Inl e, w4)
               | (IoOk _, w4) \<Rightarrow> (body, w4))))"

section \<open>The device object\<close>

text \<open>
  Modelled from the spec: the module \<open>models\<close> with the dataclass \<open>DecoraBLEDeviceState\<close>
  is not among the sources; section 3 of the specification gives the values a state is
  created with (off, brightness 0).
\<close>

definition new_DecoraBLEDeviceState :: DecoraBLEDeviceState where
  "new_DecoraBLEDeviceState = \<lparr>is_on = False, brightness_level = 0\<rparr>"

datatype client = BleakClient

text \<open>The \<open>asyncio.Future\<close> created by \<open>start\<close>: pending, or done in one of three ways.\<close>

datatype future = Pending | Resolved | Failed exn | Cancelled

text \<open>
  The fields of \<open>DecoraBLEDevice\<close>, without their leading underscore. \<open>_device\<close> (the radio
  handle, used for its address and name only) is left out; \<open>_connect_lock\<close> and
  \<open>_connection_task\<close> belong to the coordination of concurrent \<open>connect\<close> calls, which has
  a section of its own. Every assignment to \<open>_state\<close> in the class stores a
  \<open>DecoraBLEDeviceState\<close>, never \<open>None\<close>, so the field has no \<open>None\<close> here.
\<close>

record device =
  key :: "byte list"
  running :: bool
  device_connection_future :: "future option"
  client :: "client option"
  summary :: "DecoraBLEDeviceSummary option"
  state :: DecoraBLEDeviceState
  connection_callbacks :: "nat list"
  state_callbacks :: "nat list"

text \<open>\<open>__init__\<close>, given the bytes \<open>bytearray.fromhex(api_key)\<close>.\<close>

definition DecoraBLEDevice :: "byte list \<Rightarrow> device" where
  "DecoraBLEDevice api_key =
     \<lparr>key = api_key, running = False, device_connection_future = None,
      client = None, summary = None, state = new_DecoraBLEDeviceState,
      connection_callbacks = [], state_callbacks = []\<rparr>"

definition start :: "device \<Rightarrow> exn + device" where
  "start dev =
     (if running dev then Inl (RuntimeError ''Already running'')
      else Inr (dev\<lparr>running := True, device_connection_future := Some Pending\<rparr>))"

definition is_connected :: "device \<Rightarrow> world \<Rightarrow> bool" where
  "is_connected dev w = (client dev \<noteq> None \<and> alive w (clock w))"

text \<open>A method call on \<open>self._client\<close>: on \<open>None\<close> the attribute lookup raises.\<close>

fun method_name :: "request \<Rightarrow> string" where
  "method_name Establish = ''establish_connection''"
| "method_name Connect = ''connect''"
| "method_name Disconnect = ''disconnect''"
| "method_name (Write c p) = ''write_gatt_char''"
| "method_name (Read c) = ''read_gatt_char''"
| "method_name (StartNotify c) = ''start_notify''"

definition client_call :: "device \<Rightarrow> request \<Rightarrow> world \<Rightarrow> io_result \<times> world" where
  "client_call dev req w =
     (case client dev of
        None \<Rightarrow>
          (IoErr (AttributeError
             (CHR 0x27 # ''NoneType'' @ CHR 0x27 # '' object has no attribute '' @
              CHR 0x27 # method_name req @ [CHR 0x27])), w)
      | Some c \<Rightarrow> transport req w)"

subsection \<open>Observers\<close>

definition register_connection_callback :: "device \<Rightarrow> nat \<Rightarrow> world \<Rightarrow> device \<times> world" where
  "register_connection_callback dev callback w =
     (dev\<lparr>connection_callbacks := connection_callbacks dev @ [callback]\<rparr>,
      (case summary dev of
         None \<Rightarrow> w
       | Some s \<Rightarrow> w\<lparr>trace := trace w @ [ConnectionCallback callback s]\<rparr>))"

definition register_state_callback :: "device \<Rightarrow> nat \<Rightarrow> world \<Rightarrow> device \<times> world" where
  "register_state_callback dev callback w =
     (dev\<lparr>state_callbacks := state_callbacks dev @ [callback]\<rparr>,
      w\<lparr>trace := trace w @ [StateCallback callback (state dev)]\<rparr>)"

text \<open>The closure \<open>unregister_callback\<close> that \<open>register_state_callback\<close> returns.\<close>

definition unregister_state_callback :: "device \<Rightarrow> nat \<Rightarrow> exn + device" where
  "unregister_state_callback dev callback =
     (if callback \<in> set (state_callbacks dev)
      then Inr (dev\<lparr>state_callbacks := remove1 callback (state_callbacks dev)\<rparr>)
      else Inl (ValueError ''list.remove(x): x not in list''))"

definition fire_connection_callbacks ::
    "device \<Rightarrow> DecoraBLEDeviceSummary \<Rightarrow> world \<Rightarrow> world" where
  "fire_connection_callbacks dev s w =
     w\<lparr>trace := trace w @ map (\<lambda>callback. ConnectionCallback callback s)
                             (connection_callbacks dev)\<rparr>"

definition fire_state_callbacks :: "device \<Rightarrow> DecoraBLEDeviceState \<Rightarrow> world \<Rightarrow> world" where
  "fire_state_callbacks dev st w =
     w\<lparr>trace := trace w @ map (\<lambda>callback. StateCallback callback st) (state_callbacks dev)\<rparr>"

subsection \<open>Connection future, cleanup and disconnect\<close>

definition handle_device_connection :: "device \<Rightarrow> exn option \<Rightarrow> device" where
  "handle_device_connection dev exception =
     (case device_connection_future dev of
        None \<Rightarrow> dev
      | Some f \<Rightarrow>
          if f \<noteq> Pending then dev
          else (case exception of
                  Some ex \<Rightarrow> dev\<lparr>device_connection_future := Some (Failed ex)\<rparr>
                | None \<Rightarrow> dev\<lparr>device_connection_future := Some Resolved\<rparr>))"

definition disconnect_cleanup :: "device \<Rightarrow> device" where
  "disconnect_cleanup dev =
     dev\<lparr>client := None, summary := None, state := new_DecoraBLEDeviceState\<rparr>"

text \<open>
  \<open>disconnect\<close>: the \<open>finally\<close> clause runs the cleanup on every path and then lets an
  exception of \<open>client.disconnect()\<close> continue to the caller.
\<close>

definition disconnect :: "device \<Rightarrow> world \<Rightarrow> (exn + unit) \<times> device \<times> world" where
  "disconnect dev w =
     (if client dev \<noteq> None \<and> alive w (clock w)
      then (case transport Disconnect w of
              (IoErr ex, w1) \<Rightarrow> (Inl ex, disconnect_cleanup dev, w1)
            | (IoOk _, w1) \<Rightarrow> (Inr (), disconnect_cleanup dev, w1))
      else (Inr (), disconnect_cleanup dev, w))"

subsection \<open>State synchronisation\<close>

definition apply_device_state_data :: "device \<Rightarrow> byte list \<Rightarrow> exn + device" where
  "apply_device_state_data dev data =
     (case data of
        b0 # b1 # rest \<Rightarrow>
          Inr (dev\<lparr>state := (state dev)\<lparr>is_on := (b0 = 1), brightness_level := uint b1\<rparr>\<rparr>)
      | _ \<Rightarrow> Inl (IndexError ''bytearray index out of range''))"

text \<open>
  \<open>_write_state\<close> up to its only await: the mirror is assigned, the packet is built
  (\<open>bytearray\<close> refuses a value outside \<open>range(0, 256)\<close>) and the write is handed to the
  client. The result is the device as every other task sees it while the write is
  outstanding, and the request, or the exception raised before any request was made.
\<close>

definition write_state_begin ::
    "device \<Rightarrow> DecoraBLEDeviceState \<Rightarrow> device \<times> (exn + request)" where
  "write_state_begin dev st =
     (let dev1 = dev\<lparr>state := st\<rparr>
      in if brightness_level st < 0 \<or> 256 \<le> brightness_level st
         then (dev1, Inl (ValueError ''byte must be in range(0, 256)''))
         else (dev1, Inr (Write STATE_CHARACTERISTIC_UUID
                            [if is_on st then 1 else 0, word_of_int (brightness_level st)])))"

definition write_state ::
    "device \<Rightarrow> DecoraBLEDeviceState \<Rightarrow> world \<Rightarrow> (exn + unit) \<times> device \<times> world" where
  "write_state dev st w =
     (case write_state_begin dev st of
        (dev1, Inl ex) \<Rightarrow> (Inl ex, dev1, w)
      | (dev1, Inr req) \<Rightarrow>
          (case client_call dev1 req w of
             (IoErr ex, w1) \<Rightarrow> (Inl ex, dev1, w1)
           | (IoOk _, w1) \<Rightarrow> (Inr (), dev1, w1)))"

definition turn_on :: "device \<Rightarrow> int option \<Rightarrow> world \<Rightarrow> (exn + unit) \<times> device \<times> world" where
  "turn_on dev brightness w =
     (let level = (case brightness of Some b \<Rightarrow> b | None \<Rightarrow> brightness_level (state dev))
      in write_state dev ((state dev)\<lparr>is_on := True, brightness_level := level\<rparr>) w)"

definition turn_off :: "device \<Rightarrow> world \<Rightarrow> (exn + unit) \<times> device \<times> world" where
  "turn_off dev w = write_state dev ((state dev)\<lparr>is_on := False\<rparr>) w"

definition set_brightness_level ::
    "device \<Rightarrow> int \<Rightarrow> world \<Rightarrow> (exn + unit) \<times> device \<times> world" where
  "set_brightness_level dev level w =
     write_state dev ((state dev)\<lparr>brightness_level := level\<rparr>) w"

definition read_state :: "device \<Rightarrow> world \<Rightarrow> (exn + unit) \<times> device \<times> world" where
  "read_state dev w =
     (case client_call dev (Read STATE_CHARACTERISTIC_UUID) w of
        (IoErr ex, w1) \<Rightarrow> (Inl ex, dev, w1)
      | (IoOk data, w1) \<Rightarrow>
          (case apply_device_state_data dev data of
             Inl ex \<Rightarrow> (Inl ex, dev, w1)
           | Inr dev1 \<Rightarrow> (Inr (), dev1, fire_state_callbacks dev1 (state dev1) w1)))"

text \<open>The callback that \<open>_register_for_state_notifications\<close> installs, run on a
  notification payload.\<close>

definition notification :: "device \<Rightarrow> byte list \<Rightarrow> world \<Rightarrow> (exn + unit) \<times> device \<times> world" where
  "notification dev data w =
     (case apply_device_state_data dev data of
        Inl ex \<Rightarrow> (Inl ex, dev, w)
      | Inr dev1 \<Rightarrow> (Inr (), dev1, fire_state_callbacks dev1 (state dev1) w))"

subsection \<open>Bounded retries\<close>

text \<open>
  \<open>str(ex).lower()\<close> and the test \<open>needle in text\<close>. Texts are strings of 8-bit
  characters; \<open>lower\<close> maps the letters A to Z and leaves every other character as it is.
\<close>

definition lower_char :: "char \<Rightarrow> char" where
  "lower_char c =
     (if 65 \<le> (of_char c :: nat) \<and> (of_char c :: nat) \<le> 90
      then char_of (of_char c + 32 :: nat) else c)"

definition lower :: "string \<Rightarrow> string" where
  "lower text = map lower_char text"

fun contains :: "string \<Rightarrow> string \<Rightarrow> bool" where
  "contains needle [] = (needle = [])"
| "contains needle (c # cs) = (take (length needle) (c # cs) = needle \<or> contains needle cs)"

definition authorization_error :: "exn \<Rightarrow> bool" where
  "authorization_error ex =
     (let error_msg = lower (str ex)
      in contains ''authorization'' error_msg \<or> contains ''authentication'' error_msg)"

text \<open>
  The loop \<open>for attempt in range(max_retries)\<close> of \<open>_register_for_state_notifications\<close>,
  as a recursion over the attempt numbers still to run; \<open>last_exception\<close> is carried along.
  An exception outside \<open>BLEAK_EXCEPTIONS\<close> is not caught by the loop.
\<close>

fun notify_attempts ::
    "nat \<Rightarrow> real \<Rightarrow> device \<Rightarrow> nat list \<Rightarrow> exn option \<Rightarrow> world \<Rightarrow> (exn + unit) \<times> world" where
  "notify_attempts max_retries retry_delay dev [] last_exception w =
     (case last_exception of
        Some ex \<Rightarrow> (Inl ex, w)
      | None \<Rightarrow> (Inl (DeviceConnectionError ''Failed to register for notifications''), w))"
| "notify_attempts max_retries retry_delay dev (attempt # rest) last_exception w =
     (case client_call dev (StartNotify STATE_CHARACTERISTIC_UUID) w of
        (IoOk _, w1) \<Rightarrow> (Inr (), w1)
      | (IoErr ex, w1) \<Rightarrow>
          if \<not> BLEAK_EXCEPTIONS ex then (Inl ex, w1)
          else if attempt < max_retries - 1 then
            (let w2 = sleep retry_delay w1
             in if client dev = None \<or> \<not> alive w2 (clock w2)
                then (Inl (DeviceConnectionError
                             ''Client disconnected during notification registration''), w2)
                else notify_attempts max_retries retry_delay dev rest (Some ex) w2)
          else notify_attempts max_retries retry_delay dev rest (Some ex) w1)"

definition register_for_state_notifications :: "device \<Rightarrow> world \<Rightarrow> (exn + unit) \<times> world" where
  "register_for_state_notifications dev w =
     (let max_retries = 3; retry_delay = 0.4
      in notify_attempts max_retries retry_delay dev [0..<max_retries] None w)"

text \<open>The loop of \<open>read_summary_descriptor\<close>, in the same way.\<close>

fun read_attempts ::
    "nat \<Rightarrow> real \<Rightarrow> string \<Rightarrow> characteristic \<Rightarrow> device \<Rightarrow> nat list \<Rightarrow> exn option \<Rightarrow> world
      \<Rightarrow> (exn + byte list) \<times> world" where
  "read_attempts max_retries retry_delay descriptor uuid dev [] last_exception w =
     (case last_exception of
        Some ex \<Rightarrow> (Inl ex, w)
      | None \<Rightarrow> (Inl (DeviceConnectionError (''Failed to read '' @ descriptor)), w))"
| "read_attempts max_retries retry_delay descriptor uuid dev (attempt # rest) last_exception w =
     (case client_call dev (Read uuid) w of
        (IoOk raw_response, w1) \<Rightarrow> (Inr raw_response, w1)
      | (IoErr ex, w1) \<Rightarrow>
          if \<not> BLEAK_EXCEPTIONS ex then (Inl ex, w1)
          else if authorization_error ex then
            (if attempt < max_retries - 1 then
               (let w2 = sleep retry_delay w1
                in if client dev = None \<or> \<not> alive w2 (clock w2)
                   then (Inl (DeviceConnectionError
                                (''Client disconnected while reading '' @ descriptor)), w2)
                   else read_attempts max_retries retry_delay descriptor uuid dev rest
                          (Some ex) w2)
             else read_attempts max_retries retry_delay descriptor uuid dev rest (Some ex) w1)
          else (Inl ex, w1))"

definition read_summary_descriptor ::
    "device \<Rightarrow> string \<Rightarrow> characteristic \<Rightarrow> world \<Rightarrow> (exn + byte list) \<times> world" where
  "read_summary_descriptor dev descriptor descriptor_uuid w =
     (let max_retries = 3; retry_delay = 0.3
      in read_attempts max_retries retry_delay descriptor descriptor_uuid dev
           [0..<max_retries] None w)"

subsection \<open>The device summary\<close>

text \<open>
  Two functions of Python's standard library are parameters: \<open>bytes.decode('utf-8')\<close>
  (\<open>None\<close> where it raises \<open>UnicodeDecodeError\<close>) and \<open>str.strip()\<close>.
\<close>

record stdlib =
  decode_utf8 :: "byte list \<Rightarrow> string option"
  strip :: "string \<Rightarrow> string"

definition removeprefix :: "string \<Rightarrow> string \<Rightarrow> string" where
  "removeprefix prefix text =
     (if take (length prefix) text = prefix then drop (length prefix) text else text)"

definition decode :: "stdlib \<Rightarrow> byte list \<Rightarrow> exn + string" where
  "decode py raw =
     (case decode_utf8 py raw of
        None \<Rightarrow> Inl (UnicodeDecodeError ''invalid utf-8'')
      | Some text \<Rightarrow> Inr text)"

definition revision_string :: "stdlib \<Rightarrow> byte list \<Rightarrow> string \<Rightarrow> exn + string option" where
  "revision_string py raw prefix =
     (case decode py raw of
        Inl ex \<Rightarrow> Inl ex
      | Inr text \<Rightarrow>
          (let stripped_value = removeprefix prefix text
           in if length stripped_value > 0 then Inr (Some (strip py stripped_value))
              else Inr None))"

definition summarize :: "stdlib \<Rightarrow> device \<Rightarrow> world \<Rightarrow> (exn + DecoraBLEDeviceSummary) \<times> world" where
  "summarize py dev w =
     (case read_summary_descriptor dev ''system_identifier'' SYSTEM_ID_DESCRIPTOR_UUID w of
        (Inl ex, w1) \<Rightarrow> (Inl ex, w1)
      | (Inr system_id, w1) \<Rightarrow>
     (case read_summary_descriptor dev ''manufacturer'' MANUFACTURER_DESCRIPTOR_UUID w1 of
        (Inl ex, w2) \<Rightarrow> (Inl ex, w2)
      | (Inr manufacturer_raw, w2) \<Rightarrow>
     (case read_summary_descriptor dev ''model'' MODEL_NUMBER_DESCRIPTOR_UUID w2 of
        (Inl ex, w3) \<Rightarrow> (Inl ex, w3)
      | (Inr model_raw, w3) \<Rightarrow>
     (case read_summary_descriptor dev ''software_revision''
             SOFTWARE_REVISION_DESCRIPTOR_UUID w3 of
        (Inl ex, w4) \<Rightarrow> (Inl ex, w4)
      | (Inr revision_raw, w4) \<Rightarrow>
     (case decode py manufacturer_raw of
        Inl ex \<Rightarrow> (Inl ex, w4)
      | Inr manufacturer_text \<Rightarrow>
     (case decode py model_raw of
        Inl ex \<Rightarrow> (Inl ex, w4)
      | Inr model_text \<Rightarrow>
     (case revision_string py revision_raw ''Software Revision'' of
        Inl ex \<Rightarrow> (Inl ex, w4)
      | Inr revision \<Rightarrow>
          (Inr \<lparr>system_identifier = hex system_id, manufacturer = manufacturer_text,
                model = model_text, software_revision = revision\<rparr>, w4))))))))"

subsection \<open>One connection attempt\<close>

definition unlock :: "device \<Rightarrow> world \<Rightarrow> (exn + unit) \<times> world" where
  "unlock dev w =
     (case client_call dev (Write EVENT_CHARACTERISTIC_UUID ([0x11, 0x53] @ key dev)) w of
        (IoErr ex, w1) \<Rightarrow> (Inl ex, w1)
      | (IoOk _, w1) \<Rightarrow> (Inr (), w1))"

text \<open>
  What the three \<open>except\<close> handlers of \<open>_do_connect\<close> do before they raise: resolve the
  connection future with the failure, close the client if there is one (an error of
  the close is suppressed), and run the cleanup. The callback \<open>disconnected\<close> that
  \<open>_do_connect\<close> hands to \<open>establish_connection\<close> runs \<open>_disconnect_cleanup\<close> whenever the
  transport reports a lost link; it is the operation \<open>disconnect_cleanup\<close> and is not
  interleaved with an attempt here.
\<close>

definition fail_cleanup :: "device \<Rightarrow> exn \<Rightarrow> world \<Rightarrow> device \<times> world" where
  "fail_cleanup dev ex w =
     (let dev1 = handle_device_connection dev (Some ex);
          w1 = (case client dev1 of None \<Rightarrow> w | Some c \<Rightarrow> snd (transport Disconnect w))
      in (disconnect_cleanup dev1, w1))"

text \<open>The first \<open>try\<close> statement (establish the session and unlock) with its two handlers:
  \<open>IncorrectAPIKeyError\<close> is raised again, anything else becomes a
  \<open>DeviceConnectionError\<close>.\<close>

definition establish_failed :: "device \<Rightarrow> exn \<Rightarrow> world \<Rightarrow> (exn + unit) \<times> device \<times> world" where
  "establish_failed dev ex w =
     (case fail_cleanup dev ex w of
        (dev1, w1) \<Rightarrow>
          (if ex = IncorrectAPIKeyError then (Inl IncorrectAPIKeyError, dev1, w1)
           else (Inl (DeviceConnectionError (str ex)), dev1, w1)))"

definition establish_and_unlock :: "device \<Rightarrow> world \<Rightarrow> (exn + unit) \<times> device \<times> world" where
  "establish_and_unlock dev w =
     (case transport Establish w of
        (IoErr ex, w1) \<Rightarrow> establish_failed dev ex w1
      | (IoOk _, w1) \<Rightarrow>
          (let dev1 = dev\<lparr>client := Some BleakClient\<rparr>
           in case unlock dev1 w1 of
                (Inl ex, w2) \<Rightarrow> establish_failed dev1 ex w2
              | (Inr _, w2) \<Rightarrow> (Inr (), dev1, w2)))"

text \<open>The body of the second \<open>try\<close> statement: the check that the client is still there,
  the pause, the verification read (any exception of it is replaced by
  \<open>IncorrectAPIKeyError\<close>, raised inside the body), the subscription, the summary, the
  connection future, the connection callbacks and the first state read.\<close>

definition verify_and_subscribe ::
    "stdlib \<Rightarrow> device \<Rightarrow> world \<Rightarrow> (exn + unit) \<times> device \<times> world" where
  "verify_and_subscribe py dev w =
     (if client dev = None \<or> \<not> alive w (clock w)
      then (Inl (DeviceConnectionError ''Client disconnected after unlock''), dev, w)
      else
        (let w1 = sleep 0.5 w
         in case client_call dev (Read STATE_CHARACTERISTIC_UUID) w1 of
              (IoErr ex, w2) \<Rightarrow> (Inl IncorrectAPIKeyError, dev, w2)
            | (IoOk _, w2) \<Rightarrow>
                (case register_for_state_notifications dev w2 of
                   (Inl ex, w3) \<Rightarrow> (Inl ex, dev, w3)
                 | (Inr _, w3) \<Rightarrow>
                     (case summarize py dev w3 of
                        (Inl ex, w4) \<Rightarrow> (Inl ex, dev, w4)
                      | (Inr s, w4) \<Rightarrow>
                          (let dev1 = dev\<lparr>summary := Some s\<rparr>;
                               dev2 = handle_device_connection dev1 None;
                               w5 = fire_connection_callbacks dev2 s w4
                           in read_state dev2 w5)))))"

text \<open>\<open>_do_connect\<close>: the handler of the second \<open>try\<close> statement catches the members of
  \<open>BLEAK_EXCEPTIONS\<close> only; any other exception of the body leaves the function as it is.\<close>

definition do_connect :: "stdlib \<Rightarrow> device \<Rightarrow> world \<Rightarrow> (exn + unit) \<times> device \<times> world" where
  "do_connect py dev w =
     (case establish_and_unlock dev w of
        (Inl ex, dev1, w1) \<Rightarrow> (Inl ex, dev1, w1)
      | (Inr _, dev1, w1) \<Rightarrow>
          (case verify_and_subscribe py dev1 w1 of
             (Inl ex, dev2, w2) \<Rightarrow>
               (if BLEAK_EXCEPTIONS ex
                then (case fail_cleanup dev2 ex w2 of
                        (dev3, w3) \<Rightarrow> (Inl IncorrectAPIKeyError, dev3, w3))
                else (Inl ex, dev2, w2))
           | (Inr u, dev2, w2) \<Rightarrow> (Inr u, dev2, w2)))"

section \<open>Reconnection on rediscovery\<close>





section \<open>Concurrent calls of connect\<close>

text \<open>
  \<open>connect\<close> runs as any number of asyncio tasks on one device object. The scheduler is
  cooperative, so a caller is at one of a few places between two awaits: at the first
  test of \<open>is_connected\<close> (\<open>Entry\<close>), waiting for \<open>_connect_lock\<close> (\<open>Acquire\<close>), inside the
  lock before the second test (\<open>Held\<close>), awaiting a task it found in \<open>_connection_task\<close>
  (\<open>Joined\<close>), awaiting the task it created itself (\<open>Awaiting\<close>), or gone with its
  outcome (\<open>Left\<close>). A task running \<open>_do_connect\<close> is named by a number.

  A schedule is a list of moves: a caller runs to its next place, the environment ends a
  running task with an outcome, or the environment changes what \<open>is_connected\<close> reports
  (the attempt itself sets the client, a failing attempt clears it, the link drops). The
  steps here are finer than the program's (which passes from \<open>Entry\<close> to \<open>Awaiting\<close>
  without a pause when the lock is free) and the lock may go to any waiter, so every
  interleaving of the program is a schedule.
\<close>

datatype outcome = Returns | Raises exn

datatype task = Unborn | Running | Finished outcome

datatype place = Entry | Acquire | Held | Joined nat | Awaiting nat | Left outcome

record coordination =
  link :: bool
  locked :: bool
  connection_task :: "nat option"
  tasks :: "nat \<Rightarrow> task"
  next_task :: nat
  callers :: "nat \<Rightarrow> place"

datatype move = Run nat | Finish nat outcome | Link bool

text \<open>\<open>self._connection_task = asyncio.create_task(self._do_connect())\<close>, then the await.\<close>

definition spawn :: "nat \<Rightarrow> coordination \<Rightarrow> coordination" where
  "spawn i s =
     s\<lparr>tasks := (tasks s)(next_task s := Running),
       connection_task := Some (next_task s),
       next_task := next_task s + 1,
       callers := (callers s)(i := Awaiting (next_task s))\<rparr>"

text \<open>Leaving the \<open>async with\<close> block, by \<open>return\<close> or by an exception, releases the lock.\<close>

definition leave :: "nat \<Rightarrow> outcome \<Rightarrow> coordination \<Rightarrow> coordination" where
  "leave i r s = s\<lparr>locked := False, callers := (callers s)(i := Left r)\<rparr>"

fun step :: "move \<Rightarrow> coordination \<Rightarrow> coordination" where
  "step (Link b) s = s\<lparr>link := b\<rparr>"
| "step (Finish t r) s =
     (if tasks s t = Running then s\<lparr>tasks := (tasks s)(t := Finished r)\<rparr> else s)"
| "step (Run i) s =
     (case callers s i of
        Entry \<Rightarrow>
          if link s then s\<lparr>callers := (callers s)(i := Left Returns)\<rparr>
          else s\<lparr>callers := (callers s)(i := Acquire)\<rparr>
      | Acquire \<Rightarrow>
          if locked s then s
          else s\<lparr>locked := True, callers := (callers s)(i := Held)\<rparr>
      | Held \<Rightarrow>
          if link s then leave i Returns s
          else (case connection_task s of
                  Some t \<Rightarrow>
                    if tasks s t = Running
                    then s\<lparr>callers := (callers s)(i := Joined t)\<rparr>
                    else spawn i s
                | None \<Rightarrow> spawn i s)
      | Joined t \<Rightarrow>
          (case tasks s t of
             Finished Returns \<Rightarrow> leave i Returns s
           | Finished (Raises ex) \<Rightarrow> spawn i s
           | _ \<Rightarrow> s)
      | Awaiting t \<Rightarrow>
          (case tasks s t of
             Finished r \<Rightarrow> leave i r (s\<lparr>connection_task := None\<rparr>)
           | _ \<Rightarrow> s)
      | Left r \<Rightarrow> s)"

fun run :: "move list \<Rightarrow> coordination \<Rightarrow> coordination" where
  "run [] s = s"
| "run (m # ms) s = run ms (step m s)"

text \<open>A fresh device object: not connected, lock free, no task, every caller still to
  enter.\<close>

definition idle :: coordination where
  "idle = \<lparr>link = False, locked = False, connection_task = None,
           tasks = (\<lambda>t. Unborn), next_task = 0, callers = (\<lambda>i. Entry)\<rparr>"

text \<open>The places inside the \<open>async with\<close> block, and the invariant of the coordination.\<close>

fun holds :: "place \<Rightarrow> bool" where
  "holds Held = True"
| "holds (Joined t) = True"
| "holds (Awaiting t) = True"
| "holds p = False"

definition coordinated :: "coordination \<Rightarrow> bool" where
  "coordinated s \<longleftrightarrow>
     (\<forall>t. tasks s t = Running \<longrightarrow> connection_task s = Some t) \<and>
     (\<forall>t. connection_task s = Some t \<longrightarrow> (\<exists>i. callers s i = Awaiting t)) \<and>
     (\<forall>i. holds (callers s i) \<longrightarrow> locked s) \<and>
     (\<forall>i j. holds (callers s i) \<longrightarrow> holds (callers s j) \<longrightarrow> i = j) \<and>
     (\<forall>i t. callers s i \<noteq> Joined t)"

text \<open>Task numbers are handed out in order, and a failure that a caller left with is
  the failure of a finished task.\<close>

definition accounted :: "coordination \<Rightarrow> bool" where
  "accounted s \<longleftrightarrow>
     (\<forall>t. next_task s \<le> t \<longrightarrow> tasks s t = Unborn) \<and>
     (\<forall>i e. callers s i = Left (Raises e) \<longrightarrow>
        (\<exists>t. t < next_task s \<and> tasks s t = Finished (Raises e)))"

section \<open>Reading the trace\<close>

fun is_callback :: "event \<Rightarrow> bool" where
  "is_callback (StateCallback c st) = True"
| "is_callback (ConnectionCallback c s) = True"
| "is_callback e = False"

fun is_transport :: "event \<Rightarrow> bool" where
  "is_transport (Transport req r) = True"
| "is_transport e = False"

definition transports :: "world \<Rightarrow> nat" where
  "transports w = length (filter is_transport (trace w))"

text \<open>A device with an open session, and a standard library that decodes each byte as
  one character: concrete values for the examples.\<close>

definition connected_device :: device where
  "connected_device = (DecoraBLEDevice [0x12, 0x34, 0x56, 0x78])\<lparr>client := Some BleakClient\<rparr>"

definition latin :: stdlib where
  "latin = \<lparr>decode_utf8 = (\<lambda>raw. Some (map (\<lambda>b. char_of (unat b)) raw)), strip = (\<lambda>text. text)\<rparr>"

text \<open>
  A schedule of two callers. Caller 0 enters, takes the lock and creates task 0; caller 1
  enters while task 0 runs and waits for the lock; task 0 fails; caller 0 leaves with the
  failure; caller 1 takes the lock, finds no task and creates task 1, which succeeds.
\<close>

definition failed_then_retried :: "move list" where
  "failed_then_retried =
     [Run 0, Run 0, Run 0, Run 1, Run 1,
      Finish 0 (Raises (DeviceConnectionError ''Timeout'')), Run 0,
      Run 1, Run 1, Link True, Finish 1 Returns, Run 1]"

section \<open>Key retrieval: results\<close>

lemma get_api_key_answered:
  assumes "answers w (clock w) = IoOk a" "answers w (Suc (clock w)) = IoOk b"
    "answers w (Suc (Suc (clock w))) = IoOk rawkey"
    "answers w (Suc (Suc (Suc (clock w)))) = IoOk c"
  shows "fst (get_api_key U w) =
      (if py_slice 2 6 rawkey = U then Inl DeviceNotInPairingModeError
       else Inr (hex (drop 2 rawkey)))"
  using assms by (simp add: get_api_key_def transport_def Let_def)

text \<open>
  C6. When the session opens, the request is written, the read returns \<open>rawkey\<close> and the
  session closes, \<open>get_api_key\<close> raises \<open>DeviceNotInPairingModeError\<close> exactly when
  \<open>rawkey[2:6]\<close> equals the unpaired sentinel, and otherwise returns the hexadecimal
  text of \<open>rawkey[2:]\<close>; two bytes followed by \<open>aa bb cc dd\<close>, with a sentinel other than
  these four bytes, give \<open>aabbccdd\<close>.
\<close>

theorem get_api_key_sentinel:
  assumes "answers w (clock w) = IoOk a" "answers w (Suc (clock w)) = IoOk b"
    "answers w (Suc (Suc (clock w))) = IoOk rawkey"
    "answers w (Suc (Suc (Suc (clock w)))) = IoOk c"
  shows "(fst (get_api_key U w) = Inl DeviceNotInPairingModeError
            \<longleftrightarrow> py_slice 2 6 rawkey = U)
       \<and> (py_slice 2 6 rawkey \<noteq> U \<longrightarrow> fst (get_api_key U w) = Inr (hex (drop 2 rawkey)))
       \<and> (rawkey = [x, y, 0xaa, 0xbb, 0xcc, 0xdd] \<and> U \<noteq> [0xaa, 0xbb, 0xcc, 0xdd]
            \<longrightarrow> fst (get_api_key U w) = Inr ''aabbccdd'')"
  using get_api_key_answered[OF assms, of U]
  by (auto simp: py_slice_def hexdigit_def)

theorem get_api_key_sentinel_witness:
  "fst (get_api_key [0x4c, 0x45, 0x56, 0x49]
         (script [IoOk [], IoOk [], IoOk [0x22, 0x53, 0xaa, 0xbb, 0xcc, 0xdd], IoOk []] []))
     = Inr ''aabbccdd''
   \<and> py_slice 2 6 [0x22, 0x53, 0xaa, 0xbb, 0xcc, 0xdd :: byte] \<noteq> [0x4c, 0x45, 0x56, 0x49]"
  using get_api_key_sentinel[of
      "script [IoOk [], IoOk [], IoOk [0x22, 0x53, 0xaa, 0xbb, 0xcc, 0xdd], IoOk []] []"
      "[]" "[]" "[0x22, 0x53, 0xaa, 0xbb, 0xcc, 0xdd]" "[]" "[0x4c, 0x45, 0x56, 0x49]"
      "0x22" "0x53"]
  by (simp add: script_def py_slice_def hexdigit_def)

text \<open>Whatever four bytes the sentinel is, a payload of six bytes that carries it at
  offsets 2 to 5 is refused.\<close>

lemma get_api_key_six_bytes:
  assumes "answers w (clock w) = IoOk a" "answers w (Suc (clock w)) = IoOk b"
    "answers w (Suc (Suc (clock w))) = IoOk (x # y # U)"
    "answers w (Suc (Suc (Suc (clock w)))) = IoOk c" "length U = 4"
  shows "fst (get_api_key U w) = Inl DeviceNotInPairingModeError"
  using get_api_key_answered[OF assms(1-4), of U] assms(5)
  by (simp add: py_slice_def)

text \<open>
  C9, as stated, fails: a payload of six bytes is shorter than seven bytes, its slice
  \<open>rawkey[2:6]\<close> has four bytes, and when these are the sentinel the error is raised.
  The sentinel of the example is one choice of four bytes; \<open>get_api_key_six_bytes\<close> is
  the same fact for every other.
\<close>

theorem get_api_key_six_byte_payload_raises:
  "length [0x22, 0x53, 0x4c, 0x45, 0x56, 0x49 :: byte] < 7
   \<and> fst (get_api_key [0x4c, 0x45, 0x56, 0x49]
         (script [IoOk [], IoOk [], IoOk [0x22, 0x53, 0x4c, 0x45, 0x56, 0x49], IoOk []] []))
     = Inl DeviceNotInPairingModeError"
  by (simp add: get_api_key_six_bytes script_def)

text \<open>
  C9, amended. With a sentinel of four bytes, for every payload shorter than six bytes
  \<open>get_api_key\<close> does not raise the not-in-pairing-mode error and returns the hexadecimal
  text of the bytes from index 2 onward; for a payload of two bytes or fewer this is the
  empty string.
\<close>

theorem get_api_key_short_payload:
  assumes "answers w (clock w) = IoOk a" "answers w (Suc (clock w)) = IoOk b"
    "answers w (Suc (Suc (clock w))) = IoOk rawkey"
    "answers w (Suc (Suc (Suc (clock w)))) = IoOk c"
    "length U = 4" "length rawkey < 6"
  shows "fst (get_api_key U w) = Inr (hex (drop 2 rawkey))
       \<and> (length rawkey \<le> 2 \<longrightarrow> fst (get_api_key U w) = Inr [])"
proof -
  have "length (py_slice 2 6 rawkey) < 4"
    using assms(6) by (simp add: py_slice_def)
  then have "py_slice 2 6 rawkey \<noteq> U" using assms(5) by auto
  then show ?thesis using get_api_key_answered[OF assms(1-4), of U] by simp
qed

theorem get_api_key_short_payload_witness:
  "length [0x4c, 0x45, 0x56, 0x49 :: byte] = 4 \<and> length [0x22, 0x53, 0xaa :: byte] < 6
   \<and> fst (get_api_key [0x4c, 0x45, 0x56, 0x49]
         (script [IoOk [], IoOk [], IoOk [0x22, 0x53, 0xaa], IoOk []] [])) = Inr ''aa''
   \<and> length [0x22 :: byte] \<le> 2
   \<and> fst (get_api_key [0x4c, 0x45, 0x56, 0x49]
         (script [IoOk [], IoOk [], IoOk [0x22], IoOk []] [])) = Inr []"
  using get_api_key_short_payload[of
      "script [IoOk [], IoOk [], IoOk [0x22, 0x53, 0xaa], IoOk []] []"
      "[]" "[]" "[0x22, 0x53, 0xaa]" "[]" "[0x4c, 0x45, 0x56, 0x49]"]
    get_api_key_short_payload[of "script [IoOk [], IoOk [], IoOk [0x22], IoOk []] []"
      "[]" "[]" "[0x22]" "[]" "[0x4c, 0x45, 0x56, 0x49]"]
  by (simp add: script_def hexdigit_def)

section \<open>Observers and the state mirror: results\<close>

text \<open>
  C10. \<open>register_state_callback\<close> invokes the new callback once, at registration, with
  the current mirror, and appends it to the observers. On a device that never connected,
  and on a device after \<open>disconnect\<close> or after the cleanup of a lost link, the value
  replayed is the default state (off, brightness 0), whatever the mirror held before.
\<close>

theorem register_state_callback_replays_mirror:
  "trace (snd (register_state_callback dev callback w)) =
      trace w @ [StateCallback callback (state dev)]
   \<and> state_callbacks (fst (register_state_callback dev callback w)) =
      state_callbacks dev @ [callback]
   \<and> trace (snd (register_state_callback (DecoraBLEDevice api_key) callback w)) =
      trace w @ [StateCallback callback \<lparr>is_on = False, brightness_level = 0\<rparr>]
   \<and> trace (snd (register_state_callback (fst (snd (disconnect dev w0))) callback w)) =
      trace w @ [StateCallback callback \<lparr>is_on = False, brightness_level = 0\<rparr>]
   \<and> trace (snd (register_state_callback (disconnect_cleanup dev) callback w)) =
      trace w @ [StateCallback callback \<lparr>is_on = False, brightness_level = 0\<rparr>]"
  by (simp add: register_state_callback_def DecoraBLEDevice_def disconnect_def
      disconnect_cleanup_def new_DecoraBLEDeviceState_def split: prod.splits io_result.splits)

theorem register_state_callback_replays_mirror_witness:
  "trace (snd (register_state_callback
      (fst (snd (disconnect (connected_device\<lparr>state := \<lparr>is_on = True, brightness_level = 80\<rparr>\<rparr>)
                   (script [IoOk []] []))))
      7 (script [] []))) =
     [StateCallback 7 \<lparr>is_on = False, brightness_level = 0\<rparr>]"
  using register_state_callback_replays_mirror[of
      "connected_device\<lparr>state := \<lparr>is_on = True, brightness_level = 80\<rparr>\<rparr>" 7
      "script [] []" "[]" "script [IoOk []] []"]
  by (simp add: script_def)

lemma write_state_mirror: "state (fst (snd (write_state dev st w))) = st"
  by (simp add: write_state_def write_state_begin_def Let_def split: prod.splits io_result.splits)

text \<open>
  C5. \<open>_write_state\<close> has assigned the requested state to the mirror when it hands the
  write of the two-byte packet to the transport, and the mirror holds that state when the
  call ends, whether the write succeeded or raised. \<open>turn_on\<close> (with or without a
  brightness), \<open>turn_off\<close> and \<open>set_brightness_level\<close> are \<open>_write_state\<close> of the
  mirror with the fields of the command overridden, so the same holds of them: after
  \<open>turn_on(50)\<close> the mirror is on with brightness 50.
\<close>

theorem write_state_is_optimistic:
  "state (fst (write_state_begin dev st)) = st
   \<and> state (fst (snd (write_state dev st w))) = st
   \<and> (client dev \<noteq> None \<and> 0 \<le> brightness_level st \<and> brightness_level st < 256
        \<and> answers w (clock w) = IoErr ex
      \<longrightarrow> fst (write_state dev st w) = Inl ex \<and> state (fst (snd (write_state dev st w))) = st)
   \<and> is_on (state (fst (snd (turn_on dev (Some 50) w))))
   \<and> brightness_level (state (fst (snd (turn_on dev (Some 50) w)))) = 50
   \<and> state (fst (snd (turn_off dev w))) = (state dev)\<lparr>is_on := False\<rparr>
   \<and> state (fst (snd (set_brightness_level dev level w))) =
        (state dev)\<lparr>brightness_level := level\<rparr>
   \<and> (0 \<le> brightness_level st \<and> brightness_level st < 256 \<longrightarrow>
        snd (write_state_begin dev st) =
          Inr (Write STATE_CHARACTERISTIC_UUID
                 [if is_on st then 1 else 0, word_of_int (brightness_level st)]))
   \<and> (client dev \<noteq> None \<and> 0 \<le> brightness_level st \<and> brightness_level st < 256 \<longrightarrow>
        write_state dev st w =
          (case answers w (clock w) of IoOk v \<Rightarrow> Inr () | IoErr e \<Rightarrow> Inl e,
           dev\<lparr>state := st\<rparr>,
           w\<lparr>clock := clock w + 1,
             trace := trace w @
               [Transport (Write STATE_CHARACTERISTIC_UUID
                             [if is_on st then 1 else 0, word_of_int (brightness_level st)])
                  (answers w (clock w))]\<rparr>))
   \<and> turn_on dev (Some level) w =
        write_state dev ((state dev)\<lparr>is_on := True, brightness_level := level\<rparr>) w
   \<and> turn_on dev None w = write_state dev ((state dev)\<lparr>is_on := True\<rparr>) w
   \<and> turn_off dev w = write_state dev ((state dev)\<lparr>is_on := False\<rparr>) w
   \<and> set_brightness_level dev level w =
        write_state dev ((state dev)\<lparr>brightness_level := level\<rparr>) w
   \<and> state (fst (snd (turn_on dev (Some level) w))) =
        (state dev)\<lparr>is_on := True, brightness_level := level\<rparr>
   \<and> state (fst (snd (turn_on dev None w))) = (state dev)\<lparr>is_on := True\<rparr>"
proof -
  have failed: "client dev \<noteq> None \<and> 0 \<le> brightness_level st \<and> brightness_level st < 256
        \<and> answers w (clock w) = IoErr ex \<longrightarrow> fst (write_state dev st w) = Inl ex"
    by (auto simp: write_state_def write_state_begin_def client_call_def transport_def Let_def)
  have wire: "client dev \<noteq> None \<and> 0 \<le> brightness_level st \<and> brightness_level st < 256 \<longrightarrow>
        write_state dev st w =
          (case answers w (clock w) of IoOk v \<Rightarrow> Inr () | IoErr e \<Rightarrow> Inl e,
           dev\<lparr>state := st\<rparr>,
           w\<lparr>clock := clock w + 1,
             trace := trace w @
               [Transport (Write STATE_CHARACTERISTIC_UUID
                             [if is_on st then 1 else 0, word_of_int (brightness_level st)])
                  (answers w (clock w))]\<rparr>)"
    by (auto simp: write_state_def write_state_begin_def client_call_def transport_def Let_def
        split: io_result.splits)
  have none: "turn_on dev None w = write_state dev ((state dev)\<lparr>is_on := True\<rparr>) w"
    by (simp add: turn_on_def)
  have started: "state (fst (write_state_begin dev st)) = st"
    "0 \<le> brightness_level st \<and> brightness_level st < 256 \<longrightarrow>
        snd (write_state_begin dev st) =
          Inr (Write STATE_CHARACTERISTIC_UUID
                 [if is_on st then 1 else 0, word_of_int (brightness_level st)])"
    by (auto simp: write_state_begin_def Let_def)
  show ?thesis
    using failed wire none started
    by (simp add: write_state_mirror turn_on_def turn_off_def set_brightness_level_def)
qed

theorem write_state_is_optimistic_witness:
  "client connected_device \<noteq> None
   \<and> fst (write_state connected_device \<lparr>is_on = True, brightness_level = 50\<rparr>
            (script [IoErr (BleakError ''Not connected'')] [])) = Inl (BleakError ''Not connected'')
   \<and> state (fst (snd (write_state connected_device \<lparr>is_on = True, brightness_level = 50\<rparr>
            (script [IoErr (BleakError ''Not connected'')] [])))) =
        \<lparr>is_on = True, brightness_level = 50\<rparr>
   \<and> snd (write_state_begin connected_device \<lparr>is_on = True, brightness_level = 50\<rparr>) =
        Inr (Write STATE_CHARACTERISTIC_UUID [1, 50])
   \<and> turn_on (connected_device\<lparr>state := \<lparr>is_on = False, brightness_level = 30\<rparr>\<rparr>) None
        (script [IoOk []] []) =
       (Inr (), connected_device\<lparr>state := \<lparr>is_on = True, brightness_level = 30\<rparr>\<rparr>,
        (script [IoOk []] [])
          \<lparr>clock := 1,
           trace := [Transport (Write STATE_CHARACTERISTIC_UUID [1, 30]) (IoOk [])]\<rparr>)"
  using write_state_is_optimistic[of connected_device "\<lparr>is_on = True, brightness_level = 50\<rparr>"
      "script [IoErr (BleakError ''Not connected'')] []" "BleakError ''Not connected''"]
    write_state_is_optimistic[of
      "connected_device\<lparr>state := \<lparr>is_on = False, brightness_level = 30\<rparr>\<rparr>"
      "\<lparr>is_on = True, brightness_level = 30\<rparr>" "script [IoOk []] []"]
  by (simp add: connected_device_def DecoraBLEDevice_def script_def)

text \<open>
  C8, as stated, fails: with one state callback registered, \<open>turn_on(50)\<close> on a connected
  device changes the mirror from (off, 0) to (on, 50) and returns, and the only event is
  the write of the packet; the callback is not invoked.
\<close>

theorem turn_on_fires_no_state_callback:
  "state (fst (snd (turn_on (connected_device\<lparr>state_callbacks := [7]\<rparr>) (Some 50)
                      (script [IoOk []] []))))
     \<noteq> state (connected_device\<lparr>state_callbacks := [7]\<rparr>)
   \<and> fst (turn_on (connected_device\<lparr>state_callbacks := [7]\<rparr>) (Some 50) (script [IoOk []] []))
     = Inr ()
   \<and> trace (snd (snd (turn_on (connected_device\<lparr>state_callbacks := [7]\<rparr>) (Some 50)
                      (script [IoOk []] []))))
     = [Transport (Write STATE_CHARACTERISTIC_UUID [1, 50]) (IoOk [])]"
  by (simp add: turn_on_def write_state_def write_state_begin_def client_call_def transport_def
      Let_def connected_device_def DecoraBLEDevice_def script_def new_DecoraBLEDeviceState_def)

lemma write_state_callbacks:
  "filter is_callback (trace (snd (snd (write_state dev st w)))) = filter is_callback (trace w)"
  by (auto simp: write_state_def write_state_begin_def client_call_def transport_def Let_def
      split: prod.splits io_result.splits option.splits)

text \<open>
  C8, amended. A change of the mirror that comes from the device is fanned out: after a
  successful \<open>_read_state\<close> and after a notification payload, each registered state
  callback is invoked, in the order of registration, with the new state. The optimistic
  update of \<open>_write_state\<close>, \<open>turn_on\<close>, \<open>turn_off\<close> and \<open>set_brightness_level\<close> invokes no
  callback.
\<close>

theorem device_state_changes_fan_out:
  "(client dev \<noteq> None \<and> answers w (clock w) = IoOk (b0 # b1 # rest) \<longrightarrow>
      fst (read_state dev w) = Inr ()
      \<and> state (fst (snd (read_state dev w))) =
          (state dev)\<lparr>is_on := (b0 = 1), brightness_level := uint b1\<rparr>
      \<and> trace (snd (snd (read_state dev w))) =
          trace w @ Transport (Read STATE_CHARACTERISTIC_UUID) (IoOk (b0 # b1 # rest))
            # map (\<lambda>callback. StateCallback callback
                    ((state dev)\<lparr>is_on := (b0 = 1), brightness_level := uint b1\<rparr>))
                (state_callbacks dev))
   \<and> fst (notification dev (b0 # b1 # rest) w) = Inr ()
   \<and> state (fst (snd (notification dev (b0 # b1 # rest) w))) =
        (state dev)\<lparr>is_on := (b0 = 1), brightness_level := uint b1\<rparr>
   \<and> trace (snd (snd (notification dev (b0 # b1 # rest) w))) =
        trace w @ map (\<lambda>callback. StateCallback callback
                         ((state dev)\<lparr>is_on := (b0 = 1), brightness_level := uint b1\<rparr>))
                    (state_callbacks dev)
   \<and> filter is_callback (trace (snd (snd (write_state dev st w)))) = filter is_callback (trace w)
   \<and> filter is_callback (trace (snd (snd (turn_on dev brightness w)))) =
        filter is_callback (trace w)
   \<and> filter is_callback (trace (snd (snd (turn_off dev w)))) = filter is_callback (trace w)
   \<and> filter is_callback (trace (snd (snd (set_brightness_level dev level w)))) =
        filter is_callback (trace w)"
  by (auto simp: write_state_callbacks turn_on_def turn_off_def set_brightness_level_def
      read_state_def notification_def apply_device_state_data_def fire_state_callbacks_def
      client_call_def transport_def Let_def)

theorem device_state_changes_fan_out_witness:
  "client (connected_device\<lparr>state_callbacks := [7, 9]\<rparr>) \<noteq> None
   \<and> state (fst (snd (read_state (connected_device\<lparr>state_callbacks := [7, 9]\<rparr>)
                         (script [IoOk [1, 80]] [])))) = \<lparr>is_on = True, brightness_level = 80\<rparr>
   \<and> trace (snd (snd (read_state (connected_device\<lparr>state_callbacks := [7, 9]\<rparr>)
                         (script [IoOk [1, 80]] [])))) =
       [Transport (Read STATE_CHARACTERISTIC_UUID) (IoOk [1, 80]),
        StateCallback 7 \<lparr>is_on = True, brightness_level = 80\<rparr>,
        StateCallback 9 \<lparr>is_on = True, brightness_level = 80\<rparr>]"
  using device_state_changes_fan_out[of "connected_device\<lparr>state_callbacks := [7, 9]\<rparr>"
      "script [IoOk [1, 80]] []" 1 80 "[]"]
  by (simp add: connected_device_def DecoraBLEDevice_def script_def new_DecoraBLEDeviceState_def)

section \<open>Disconnect and the failed verification: results\<close>

text \<open>
  C3, as stated, fails: on a connected device whose \<open>client.disconnect()\<close> raises,
  \<open>disconnect\<close> raises that exception.
\<close>

theorem disconnect_raises_when_close_fails:
  "fst (disconnect connected_device (script [IoErr (BleakError ''Not connected'')] []))
     = Inl (BleakError ''Not connected'')"
  by (simp add: disconnect_def transport_def Let_def connected_device_def DecoraBLEDevice_def
      script_def)

text \<open>
  C3, amended. When \<open>disconnect\<close> ends, by returning or by raising, the client handle and
  the summary are cleared and the mirror is the default state. Without a connected
  session it returns and asks nothing of the transport. With one it closes the session
  once, and returns when the close succeeds and raises the exception of the close when it
  fails.
\<close>

theorem disconnect_always_resets:
  "summary (fst (snd (disconnect dev w))) = None
   \<and> state (fst (snd (disconnect dev w))) = \<lparr>is_on = False, brightness_level = 0\<rparr>
   \<and> client (fst (snd (disconnect dev w))) = None
   \<and> (\<not> is_connected dev w \<longrightarrow> fst (disconnect dev w) = Inr () \<and> snd (snd (disconnect dev w)) = w)
   \<and> (is_connected dev w \<longrightarrow>
        fst (disconnect dev w) =
          (case answers w (clock w) of IoOk v \<Rightarrow> Inr () | IoErr ex \<Rightarrow> Inl ex)
        \<and> trace (snd (snd (disconnect dev w))) =
            trace w @ [Transport Disconnect (answers w (clock w))])"
  by (auto simp: disconnect_def is_connected_def disconnect_cleanup_def transport_def Let_def
      new_DecoraBLEDeviceState_def split: io_result.splits)

theorem disconnect_always_resets_witness:
  "\<not> is_connected (DecoraBLEDevice [0x12]) (script [] [])
   \<and> disconnect (DecoraBLEDevice [0x12]) (script [] []) =
       (Inr (), DecoraBLEDevice [0x12], script [] [])
   \<and> is_connected (connected_device\<lparr>state := \<lparr>is_on = True, brightness_level = 80\<rparr>\<rparr>)
        (script [IoErr (BleakError ''Not connected'')] [])
   \<and> state (fst (snd (disconnect
        (connected_device\<lparr>state := \<lparr>is_on = True, brightness_level = 80\<rparr>\<rparr>)
        (script [IoErr (BleakError ''Not connected'')] [])))) =
       \<lparr>is_on = False, brightness_level = 0\<rparr>"
  using disconnect_always_resets[of "DecoraBLEDevice [0x12]" "script [] []"]
    disconnect_always_resets[of
      "connected_device\<lparr>state := \<lparr>is_on = True, brightness_level = 80\<rparr>\<rparr>"
      "script [IoErr (BleakError ''Not connected'')] []"]
  by (simp add: is_connected_def connected_device_def DecoraBLEDevice_def script_def
      disconnect_def disconnect_cleanup_def new_DecoraBLEDeviceState_def)

text \<open>
  C2: what \<open>_do_connect\<close> does when the session is established, the unlock is written,
  the client reports connected and the verification read raises any exception \<open>ex\<close>.
  It raises \<open>IncorrectAPIKeyError\<close>, whatever \<open>ex\<close> is. The exception is raised inside
  the second \<open>try\<close> statement and is not a member of \<open>BLEAK_EXCEPTIONS\<close>, so the handler
  that closes the session is passed over: the client handle stays, the connection future
  and the mirror are as before, and the transport was asked for nothing after the read.
\<close>

theorem do_connect_verification_failure:
  assumes "answers w (clock w) = IoOk a" "answers w (clock w + 1) = IoOk b"
    "alive w (clock w + 2)" "answers w (clock w + 3) = IoErr ex"
  shows "do_connect py dev w =
     (Inl IncorrectAPIKeyError, dev\<lparr>client := Some BleakClient\<rparr>,
      w\<lparr>clock := clock w + 4,
        trace := trace w @
          [Transport Establish (IoOk a),
           Transport (Write EVENT_CHARACTERISTIC_UUID ([0x11, 0x53] @ key dev)) (IoOk b),
           Slept 0.5,
           Transport (Read STATE_CHARACTERISTIC_UUID) (IoErr ex)]\<rparr>)"
  using assms
  by (simp add: do_connect_def establish_and_unlock_def unlock_def verify_and_subscribe_def
      client_call_def transport_def sleep_def Let_def eval_nat_numeral)

theorem do_connect_verification_failure_witness:
  "do_connect latin
     ((DecoraBLEDevice [0x12, 0x34])\<lparr>running := True, device_connection_future := Some Pending\<rparr>)
     (script [IoOk [], IoOk [], IoOk [], IoErr (BleakError ''Not connected'')] [])
   = (Inl IncorrectAPIKeyError,
      (DecoraBLEDevice [0x12, 0x34])\<lparr>running := True, device_connection_future := Some Pending,
         client := Some BleakClient\<rparr>,
      (script [IoOk [], IoOk [], IoOk [], IoErr (BleakError ''Not connected'')] [])
        \<lparr>clock := 4,
         trace := [Transport Establish (IoOk []),
                   Transport (Write EVENT_CHARACTERISTIC_UUID [0x11, 0x53, 0x12, 0x34]) (IoOk []),
                   Slept 0.5,
                   Transport (Read STATE_CHARACTERISTIC_UUID)
                     (IoErr (BleakError ''Not connected''))]\<rparr>)"
  using do_connect_verification_failure[of
      "script [IoOk [], IoOk [], IoOk [], IoErr (BleakError ''Not connected'')] []"
      "[]" "[]" "BleakError ''Not connected''" latin
      "(DecoraBLEDevice [0x12, 0x34])\<lparr>running := True, device_connection_future := Some Pending\<rparr>"]
  by (simp add: script_def DecoraBLEDevice_def)

section \<open>Retries of the descriptor read: results\<close>

lemma range_3: "[0..<3] = [0, 1, 2]"
  by (simp add: upt_rec)

lemma transports_sleep: "transports (sleep d w) = transports w"
  by (simp add: transports_def sleep_def)

lemma transports_client_call: "transports (snd (client_call dev req w)) \<le> transports w + 1"
  by (simp add: transports_def client_call_def transport_def Let_def split: option.splits)

text \<open>Each attempt still to run asks the transport at most once.\<close>

lemma read_attempts_bounded:
  "transports (snd (read_attempts m d descriptor u dev attempts prev w))
     \<le> transports w + length attempts"
proof (induction attempts arbitrary: prev w)
  case Nil
  then show ?case by (simp split: option.splits)
next
  case (Cons attempt rest)
  obtain r w1 where rw: "client_call dev (Read u) w = (r, w1)"
    by (cases "client_call dev (Read u) w")
  have le: "transports w1 \<le> transports w + 1"
    using transports_client_call[of dev "Read u" w] rw by simp
  show ?case
  proof (cases r)
    case (IoOk raw)
    then show ?thesis using rw le by simp
  next
    case (IoErr ex)
    have a: "transports (snd (read_attempts m d descriptor u dev rest (Some ex) w1))
        \<le> transports w + 1 + length rest"
      using Cons.IH[of "Some ex" w1] le by linarith
    have b: "transports (snd (read_attempts m d descriptor u dev rest (Some ex) (sleep d w1)))
        \<le> transports w + 1 + length rest"
      using Cons.IH[of "Some ex" "sleep d w1"] le transports_sleep[of d w1] by linarith
    have c: "transports (sleep d w1) \<le> transports w + 1 + length rest"
      using le transports_sleep[of d w1] by linarith
    show ?thesis using rw IoErr a b c le by (simp add: Let_def)
  qed
qed

lemma read_summary_descriptor_bounded:
  "transports (snd (read_summary_descriptor dev descriptor u w)) \<le> transports w + 3"
  using read_attempts_bounded[of 3 "0.3" descriptor u dev "[0, 1, 2]" None w]
  by (simp add: read_summary_descriptor_def range_3 Let_def)

lemma authorization_text: "authorization_error (BleakError ''Insufficient Authorization'')"
  by (simp add: authorization_error_def lower_def lower_char_def char_of_def bit_Suc_0_iff)

lemma authentication_text: "authorization_error (BleakError ''insufficient authentication'')"
  by (simp add: authorization_error_def lower_def lower_char_def char_of_def bit_Suc_0_iff)

lemma other_text: "\<not> authorization_error (BleakError ''Characteristic was not found'')"
  by (simp add: authorization_error_def lower_def lower_char_def char_of_def bit_Suc_0_iff)

text \<open>
  C4. \<open>read_summary_descriptor\<close> reads at most three times. At the first, the second and
  the third read alike, a value that is read is returned, and an exception that is not
  both a member of \<open>BLEAK_EXCEPTIONS\<close> and of the authorization class (its text, in lower
  case, contains \<open>authorization\<close> or \<open>authentication\<close>) is raised at once, with no delay
  and no further read. Only an error of the authorization class at the first or the
  second read is followed by a sleep of 0.3 seconds and another read. When the first two
  reads fail so and the third succeeds, the value of the third is returned; when the
  third fails too, its error is raised, and there is no fourth read. A retry takes place
  only if the client reports connected after the delay (otherwise
  \<open>DeviceConnectionError\<close> is raised), which is what the cases with a later read assume of
  the transport.
\<close>

theorem read_summary_descriptor_retries:
  "transports (snd (read_summary_descriptor dev descriptor u w)) \<le> transports w + 3
   \<and> (client dev \<noteq> None \<and> answers w (clock w) = IoOk raw_response \<longrightarrow>
      read_summary_descriptor dev descriptor u w =
        (Inr raw_response,
         w\<lparr>clock := clock w + 1,
           trace := trace w @ [Transport (Read u) (IoOk raw_response)]\<rparr>))
   \<and> (client dev \<noteq> None \<and> answers w (clock w) = IoErr ex
       \<and> \<not> (BLEAK_EXCEPTIONS ex \<and> authorization_error ex) \<longrightarrow>
      read_summary_descriptor dev descriptor u w =
        (Inl ex,
         w\<lparr>clock := clock w + 1,
           trace := trace w @ [Transport (Read u) (IoErr ex)]\<rparr>))
   \<and> (client dev \<noteq> None \<and> answers w (clock w) = IoErr e1
       \<and> BLEAK_EXCEPTIONS e1 \<and> authorization_error e1
       \<and> \<not> alive w (clock w + 2) \<longrightarrow>
      read_summary_descriptor dev descriptor u w =
        (Inl (DeviceConnectionError (''Client disconnected while reading '' @ descriptor)),
         w\<lparr>clock := clock w + 2,
           trace := trace w @ [Transport (Read u) (IoErr e1), Slept 0.3]\<rparr>))
   \<and> (client dev \<noteq> None \<and> answers w (clock w) = IoErr e1
       \<and> BLEAK_EXCEPTIONS e1 \<and> authorization_error e1
       \<and> alive w (clock w + 2)
       \<and> answers w (clock w + 2) = IoOk raw_response \<longrightarrow>
      read_summary_descriptor dev descriptor u w =
        (Inr raw_response,
         w\<lparr>clock := clock w + 3,
           trace := trace w @ [Transport (Read u) (IoErr e1), Slept 0.3,
                     Transport (Read u) (IoOk raw_response)]\<rparr>))
   \<and> (client dev \<noteq> None \<and> answers w (clock w) = IoErr e1
       \<and> BLEAK_EXCEPTIONS e1 \<and> authorization_error e1
       \<and> alive w (clock w + 2) \<and> answers w (clock w + 2) = IoErr ex
       \<and> \<not> (BLEAK_EXCEPTIONS ex \<and> authorization_error ex) \<longrightarrow>
      read_summary_descriptor dev descriptor u w =
        (Inl ex,
         w\<lparr>clock := clock w + 3,
           trace := trace w @ [Transport (Read u) (IoErr e1), Slept 0.3,
                     Transport (Read u) (IoErr ex)]\<rparr>))
   \<and> (client dev \<noteq> None \<and> answers w (clock w) = IoErr e1
       \<and> BLEAK_EXCEPTIONS e1 \<and> authorization_error e1
       \<and> alive w (clock w + 2) \<and> answers w (clock w + 2) = IoErr e2
       \<and> BLEAK_EXCEPTIONS e2 \<and> authorization_error e2
       \<and> \<not> alive w (clock w + 4) \<longrightarrow>
      read_summary_descriptor dev descriptor u w =
        (Inl (DeviceConnectionError (''Client disconnected while reading '' @ descriptor)),
         w\<lparr>clock := clock w + 4,
           trace := trace w @ [Transport (Read u) (IoErr e1), Slept 0.3,
                     Transport (Read u) (IoErr e2), Slept 0.3]\<rparr>))
   \<and> (client dev \<noteq> None \<and> answers w (clock w) = IoErr e1
       \<and> BLEAK_EXCEPTIONS e1 \<and> authorization_error e1
       \<and> alive w (clock w + 2) \<and> answers w (clock w + 2) = IoErr e2
       \<and> BLEAK_EXCEPTIONS e2 \<and> authorization_error e2
       \<and> alive w (clock w + 4)
       \<and> answers w (clock w + 4) = IoOk raw_response \<longrightarrow>
      read_summary_descriptor dev descriptor u w =
        (Inr raw_response,
         w\<lparr>clock := clock w + 5,
           trace := trace w @ [Transport (Read u) (IoErr e1), Slept 0.3,
                     Transport (Read u) (IoErr e2), Slept 0.3,
                     Transport (Read u) (IoOk raw_response)]\<rparr>))
   \<and> (client dev \<noteq> None \<and> answers w (clock w) = IoErr e1
       \<and> BLEAK_EXCEPTIONS e1 \<and> authorization_error e1
       \<and> alive w (clock w + 2) \<and> answers w (clock w + 2) = IoErr e2
       \<and> BLEAK_EXCEPTIONS e2 \<and> authorization_error e2
       \<and> alive w (clock w + 4) \<and> answers w (clock w + 4) = IoErr e3 \<longrightarrow>
      read_summary_descriptor dev descriptor u w =
        (Inl e3,
         w\<lparr>clock := clock w + 5,
           trace := trace w @ [Transport (Read u) (IoErr e1), Slept 0.3,
                     Transport (Read u) (IoErr e2), Slept 0.3,
                     Transport (Read u) (IoErr e3)]\<rparr>))"
proof -
  note defs = read_summary_descriptor_def range_3 client_call_def transport_def sleep_def
    Let_def eval_nat_numeral
  have first_ok: "client dev \<noteq> None \<and> answers w (clock w) = IoOk raw_response \<longrightarrow>
        read_summary_descriptor dev descriptor u w =
          (Inr raw_response,
           w\<lparr>clock := clock w + 1,
             trace := trace w @ [Transport (Read u) (IoOk raw_response)]\<rparr>)"
    by (auto simp: defs)
  have first_other: "client dev \<noteq> None \<and> answers w (clock w) = IoErr ex
        \<and> \<not> (BLEAK_EXCEPTIONS ex \<and> authorization_error ex) \<longrightarrow>
        read_summary_descriptor dev descriptor u w =
          (Inl ex,
           w\<lparr>clock := clock w + 1,
             trace := trace w @ [Transport (Read u) (IoErr ex)]\<rparr>)"
    by (auto simp: defs)
  have first_lost: "client dev \<noteq> None \<and> answers w (clock w) = IoErr e1
        \<and> BLEAK_EXCEPTIONS e1 \<and> authorization_error e1
        \<and> \<not> alive w (clock w + 2) \<longrightarrow>
        read_summary_descriptor dev descriptor u w =
          (Inl (DeviceConnectionError (''Client disconnected while reading '' @ descriptor)),
           w\<lparr>clock := clock w + 2,
             trace := trace w @ [Transport (Read u) (IoErr e1), Slept 0.3]\<rparr>)"
    by (auto simp: defs)
  have second_ok: "client dev \<noteq> None \<and> answers w (clock w) = IoErr e1
        \<and> BLEAK_EXCEPTIONS e1 \<and> authorization_error e1
        \<and> alive w (clock w + 2)
        \<and> answers w (clock w + 2) = IoOk raw_response \<longrightarrow>
        read_summary_descriptor dev descriptor u w =
          (Inr raw_response,
           w\<lparr>clock := clock w + 3,
             trace := trace w @ [Transport (Read u) (IoErr e1), Slept 0.3,
                       Transport (Read u) (IoOk raw_response)]\<rparr>)"
    by (auto simp: defs)
  have second_other: "client dev \<noteq> None \<and> answers w (clock w) = IoErr e1
        \<and> BLEAK_EXCEPTIONS e1 \<and> authorization_error e1
        \<and> alive w (clock w + 2) \<and> answers w (clock w + 2) = IoErr ex
        \<and> \<not> (BLEAK_EXCEPTIONS ex \<and> authorization_error ex) \<longrightarrow>
        read_summary_descriptor dev descriptor u w =
          (Inl ex,
           w\<lparr>clock := clock w + 3,
             trace := trace w @ [Transport (Read u) (IoErr e1), Slept 0.3,
                       Transport (Read u) (IoErr ex)]\<rparr>)"
    by (auto simp: defs)
  have second_lost: "client dev \<noteq> None \<and> answers w (clock w) = IoErr e1
        \<and> BLEAK_EXCEPTIONS e1 \<and> authorization_error e1
        \<and> alive w (clock w + 2) \<and> answers w (clock w + 2) = IoErr e2
        \<and> BLEAK_EXCEPTIONS e2 \<and> authorization_error e2
        \<and> \<not> alive w (clock w + 4) \<longrightarrow>
        read_summary_descriptor dev descriptor u w =
          (Inl (DeviceConnectionError (''Client disconnected while reading '' @ descriptor)),
           w\<lparr>clock := clock w + 4,
             trace := trace w @ [Transport (Read u) (IoErr e1), Slept 0.3,
                       Transport (Read u) (IoErr e2), Slept 0.3]\<rparr>)"
    by (auto simp: defs)
  have third_ok: "client dev \<noteq> None \<and> answers w (clock w) = IoErr e1
        \<and> BLEAK_EXCEPTIONS e1 \<and> authorization_error e1
        \<and> alive w (clock w + 2) \<and> answers w (clock w + 2) = IoErr e2
        \<and> BLEAK_EXCEPTIONS e2 \<and> authorization_error e2
        \<and> alive w (clock w + 4)
        \<and> answers w (clock w + 4) = IoOk raw_response \<longrightarrow>
        read_summary_descriptor dev descriptor u w =
          (Inr raw_response,
           w\<lparr>clock := clock w + 5,
             trace := trace w @ [Transport (Read u) (IoErr e1), Slept 0.3,
                       Transport (Read u) (IoErr e2), Slept 0.3,
                       Transport (Read u) (IoOk raw_response)]\<rparr>)"
    by (auto simp: defs)
  have third_error: "client dev \<noteq> None \<and> answers w (clock w) = IoErr e1
        \<and> BLEAK_EXCEPTIONS e1 \<and> authorization_error e1
        \<and> alive w (clock w + 2) \<and> answers w (clock w + 2) = IoErr e2
        \<and> BLEAK_EXCEPTIONS e2 \<and> authorization_error e2
        \<and> alive w (clock w + 4) \<and> answers w (clock w + 4) = IoErr e3 \<longrightarrow>
        read_summary_descriptor dev descriptor u w =
          (Inl e3,
           w\<lparr>clock := clock w + 5,
             trace := trace w @ [Transport (Read u) (IoErr e1), Slept 0.3,
                       Transport (Read u) (IoErr e2), Slept 0.3,
                       Transport (Read u) (IoErr e3)]\<rparr>)"
    by (auto simp: defs)
  show ?thesis
    by (intro conjI)
      (rule read_summary_descriptor_bounded, rule first_ok, rule first_other, rule first_lost, rule second_ok,
       rule second_other, rule second_lost, rule third_ok, rule third_error)
qed

theorem read_summary_descriptor_retries_witness:
  "client connected_device \<noteq> None
   \<and> \<not> authorization_error (BleakError ''Characteristic was not found'')
   \<and> fst (read_summary_descriptor connected_device ''model'' MODEL_NUMBER_DESCRIPTOR_UUID
        (script [IoErr (BleakError ''Characteristic was not found''), IoOk [0x44]] []))
       = Inl (BleakError ''Characteristic was not found'')
   \<and> authorization_error (BleakError ''Insufficient Authorization'')
   \<and> authorization_error (BleakError ''insufficient authentication'')
   \<and> read_summary_descriptor connected_device ''model'' MODEL_NUMBER_DESCRIPTOR_UUID
        (script [IoErr (BleakError ''Insufficient Authorization''), IoOk [],
                 IoErr (BleakError ''insufficient authentication''), IoOk [], IoOk [0x44]] [])
       = (Inr [0x44],
          (script [IoErr (BleakError ''Insufficient Authorization''), IoOk [],
                   IoErr (BleakError ''insufficient authentication''), IoOk [], IoOk [0x44]] [])
            \<lparr>clock := 5,
             trace := [Transport (Read MODEL_NUMBER_DESCRIPTOR_UUID)
                         (IoErr (BleakError ''Insufficient Authorization'')),
                       Slept 0.3,
                       Transport (Read MODEL_NUMBER_DESCRIPTOR_UUID)
                         (IoErr (BleakError ''insufficient authentication'')),
                       Slept 0.3,
                       Transport (Read MODEL_NUMBER_DESCRIPTOR_UUID) (IoOk [0x44])]\<rparr>)
   \<and> fst (read_summary_descriptor connected_device ''model'' MODEL_NUMBER_DESCRIPTOR_UUID
        (script [IoErr (BleakError ''Insufficient Authorization''), IoOk [],
                 IoErr (BleakError ''Insufficient Authorization''), IoOk [],
                 IoErr (BleakError ''insufficient authentication''), IoOk [], IoOk [0x44]] []))
       = Inl (BleakError ''insufficient authentication'')
   \<and> fst (read_summary_descriptor connected_device ''model'' MODEL_NUMBER_DESCRIPTOR_UUID
        (script [IoErr (BleakError ''Insufficient Authorization''), IoOk [],
                 IoErr (BleakError ''Characteristic was not found''), IoOk [], IoOk [0x44]] []))
       = Inl (BleakError ''Characteristic was not found'')
   \<and> fst (read_summary_descriptor connected_device ''model'' MODEL_NUMBER_DESCRIPTOR_UUID
        (script [IoErr (BleakError ''Insufficient Authorization''), IoOk [],
                 IoErr (BleakError ''Insufficient Authorization''), IoOk [],
                 IoErr (BleakError ''Characteristic was not found''), IoOk [], IoOk [0x44]] []))
       = Inl (BleakError ''Characteristic was not found'')
   \<and> fst (read_summary_descriptor connected_device ''model'' MODEL_NUMBER_DESCRIPTOR_UUID
        (script [IoErr (BleakError ''Insufficient Authorization''), IoOk [], IoOk [0x44]] []))
       = Inr [0x44]
   \<and> fst (read_summary_descriptor connected_device ''model'' MODEL_NUMBER_DESCRIPTOR_UUID
        (script [IoOk [0x44]] [])) = Inr [0x44]
   \<and> \<not> alive (script [IoErr (BleakError ''Insufficient Authorization''), IoOk [], IoOk [0x44]]
                 [True, True, False]) 2
   \<and> fst (read_summary_descriptor connected_device ''model'' MODEL_NUMBER_DESCRIPTOR_UUID
        (script [IoErr (BleakError ''Insufficient Authorization''), IoOk [], IoOk [0x44]]
           [True, True, False]))
       = Inl (DeviceConnectionError ''Client disconnected while reading model'')
   \<and> fst (read_summary_descriptor connected_device ''model'' MODEL_NUMBER_DESCRIPTOR_UUID
        (script [IoErr (BleakError ''Insufficient Authorization''), IoOk [],
                 IoErr (BleakError ''Insufficient Authorization''), IoOk [], IoOk [0x44]]
           [True, True, True, True, False]))
       = Inl (DeviceConnectionError ''Client disconnected while reading model'')"
  using read_summary_descriptor_retries[of connected_device "''model''"
      MODEL_NUMBER_DESCRIPTOR_UUID
      "script [IoErr (BleakError ''Characteristic was not found''), IoOk [0x44]] []"
      _ "BleakError ''Characteristic was not found''"]
    read_summary_descriptor_retries[of connected_device "''model''"
      MODEL_NUMBER_DESCRIPTOR_UUID
      "script [IoErr (BleakError ''Insufficient Authorization''), IoOk [],
               IoErr (BleakError ''insufficient authentication''), IoOk [], IoOk [0x44]] []"
      "[0x44]" _ "BleakError ''Insufficient Authorization''"
      "BleakError ''insufficient authentication''"]
    read_summary_descriptor_retries[of connected_device "''model''"
      MODEL_NUMBER_DESCRIPTOR_UUID
      "script [IoErr (BleakError ''Insufficient Authorization''), IoOk [],
               IoErr (BleakError ''Insufficient Authorization''), IoOk [],
               IoErr (BleakError ''insufficient authentication''), IoOk [], IoOk [0x44]] []"
      _ _ "BleakError ''Insufficient Authorization''" "BleakError ''Insufficient Authorization''"
      "BleakError ''insufficient authentication''"]
    read_summary_descriptor_retries[of connected_device "''model''"
      MODEL_NUMBER_DESCRIPTOR_UUID
      "script [IoErr (BleakError ''Insufficient Authorization''), IoOk [],
               IoErr (BleakError ''Characteristic was not found''), IoOk [], IoOk [0x44]] []"
      _ "BleakError ''Characteristic was not found''" "BleakError ''Insufficient Authorization''"]
    read_summary_descriptor_retries[of connected_device "''model''"
      MODEL_NUMBER_DESCRIPTOR_UUID
      "script [IoErr (BleakError ''Insufficient Authorization''), IoOk [],
               IoErr (BleakError ''Insufficient Authorization''), IoOk [],
               IoErr (BleakError ''Characteristic was not found''), IoOk [], IoOk [0x44]] []"
      _ _ "BleakError ''Insufficient Authorization''" "BleakError ''Insufficient Authorization''"
      "BleakError ''Characteristic was not found''"]
    read_summary_descriptor_retries[of connected_device "''model''"
      MODEL_NUMBER_DESCRIPTOR_UUID
      "script [IoErr (BleakError ''Insufficient Authorization''), IoOk [], IoOk [0x44]] []"
      "[0x44]" _ "BleakError ''Insufficient Authorization''"]
    read_summary_descriptor_retries[of connected_device "''model''"
      MODEL_NUMBER_DESCRIPTOR_UUID "script [IoOk [0x44]] []" "[0x44]"]
    read_summary_descriptor_retries[of connected_device "''model''"
      MODEL_NUMBER_DESCRIPTOR_UUID
      "script [IoErr (BleakError ''Insufficient Authorization''), IoOk [], IoOk [0x44]]
         [True, True, False]"
      _ _ "BleakError ''Insufficient Authorization''"]
    read_summary_descriptor_retries[of connected_device "''model''"
      MODEL_NUMBER_DESCRIPTOR_UUID
      "script [IoErr (BleakError ''Insufficient Authorization''), IoOk [],
               IoErr (BleakError ''Insufficient Authorization''), IoOk [], IoOk [0x44]]
         [True, True, True, True, False]"
      _ _ "BleakError ''Insufficient Authorization''" "BleakError ''Insufficient Authorization''"]
    authorization_text authentication_text other_text
  by (simp add: connected_device_def DecoraBLEDevice_def script_def)

section \<open>Reconnection on rediscovery: results\<close>




section \<open>Concurrent calls of connect: results\<close>

lemma coordinated_idle: "coordinated idle"
  by (simp add: coordinated_def idle_def)

lemma coordinated_link: "coordinated s \<Longrightarrow> coordinated (s\<lparr>link := b\<rparr>)"
  by (simp add: coordinated_def)

lemma coordinated_finish:
  "coordinated s \<Longrightarrow> coordinated (s\<lparr>tasks := (tasks s)(t := Finished r)\<rparr>)"
  by (simp add: coordinated_def)

lemma coordinated_outside:
  assumes "coordinated s" "\<not> holds (callers s i)" "\<not> holds p"
  shows "coordinated (s\<lparr>callers := (callers s)(i := p)\<rparr>)"
proof -
  have a: "\<And>t j. callers s j = Awaiting t \<Longrightarrow> j \<noteq> i"
    using assms(2) by auto
  have j: "\<And>t. p \<noteq> Joined t" using assms(3) by auto
  show ?thesis
    using assms(1,3) a j unfolding coordinated_def
    by (simp; blast)
qed

lemma coordinated_acquire:
  assumes "coordinated s" "\<not> locked s"
  shows "coordinated (s\<lparr>locked := True, callers := (callers s)(i := Held)\<rparr>)"
proof -
  have n: "\<And>j. \<not> holds (callers s j)"
    using assms unfolding coordinated_def by blast
  then have a: "\<And>t j. callers s j \<noteq> Awaiting t"
    by (metis holds.simps(3))
  have c: "connection_task s = None"
    using assms(1) a unfolding coordinated_def by (cases "connection_task s") auto
  show ?thesis
    using assms(1) n a c unfolding coordinated_def by simp
qed

text \<open>A caller at \<open>Held\<close> is alone inside the lock: no task is referenced or running.\<close>

lemma held_alone:
  assumes "coordinated s" "callers s i = Held"
  shows "connection_task s = None" "\<And>t. tasks s t \<noteq> Running"
    "\<And>j. j \<noteq> i \<Longrightarrow> \<not> holds (callers s j)"
proof -
  have u: "\<And>j. holds (callers s j) \<Longrightarrow> j = i"
    using assms unfolding coordinated_def by (metis holds.simps(1))
  then show "\<And>j. j \<noteq> i \<Longrightarrow> \<not> holds (callers s j)" by blast
  have a: "callers s j \<noteq> Awaiting t" for t j
  proof
    assume h: "callers s j = Awaiting t"
    then have "holds (callers s j)" by simp
    then have "j = i" by (rule u)
    with h assms(2) show False by simp
  qed
  show c: "connection_task s = None"
    using assms(1) a unfolding coordinated_def by (cases "connection_task s") auto
  show "\<And>t. tasks s t \<noteq> Running"
    using assms(1) c unfolding coordinated_def by auto
qed

lemma coordinated_leave_held:
  assumes "coordinated s" "callers s i = Held"
  shows "coordinated (leave i r s)"
  using assms(1) held_alone[OF assms] unfolding coordinated_def leave_def
  by (simp; blast)

lemma coordinated_spawn:
  assumes "coordinated s" "callers s i = Held"
  shows "coordinated (spawn i s)"
proof -
  note h = held_alone[OF assms]
  have 1: "\<forall>t. tasks (spawn i s) t = Running \<longrightarrow> connection_task (spawn i s) = Some t"
    using h(2) by (simp add: spawn_def)
  have 2: "\<forall>t. connection_task (spawn i s) = Some t \<longrightarrow>
      (\<exists>j. callers (spawn i s) j = Awaiting t)"
    by (auto simp: spawn_def)
  have l: "locked s" using assms unfolding coordinated_def by (metis holds.simps(1))
  have 3: "\<forall>j. holds (callers (spawn i s) j) \<longrightarrow> locked (spawn i s)"
    using l by (simp add: spawn_def)
  have 4: "\<forall>j k. holds (callers (spawn i s) j) \<longrightarrow> holds (callers (spawn i s) k) \<longrightarrow> j = k"
    using h(3) by (auto simp: spawn_def split: if_splits)
  have 5: "\<forall>j t. callers (spawn i s) j \<noteq> Joined t"
    using assms(1) unfolding coordinated_def by (simp add: spawn_def)
  show ?thesis unfolding coordinated_def using 1 2 3 4 5 by blast
qed

lemma coordinated_leave_awaiting:
  assumes "coordinated s" "callers s i = Awaiting t" "tasks s t = Finished r"
  shows "coordinated (leave i r (s\<lparr>connection_task := None\<rparr>))"
proof -
  have u: "\<And>j. holds (callers s j) \<Longrightarrow> j = i"
    using assms(1,2) unfolding coordinated_def by (metis holds.simps(3))
  have c: "\<And>t'. connection_task s = Some t' \<Longrightarrow> t' = t"
    using assms(1,2) u unfolding coordinated_def by (metis holds.simps(3) place.inject(2))
  have n: "\<And>t'. tasks s t' \<noteq> Running"
    using assms(1,3) c unfolding coordinated_def by (metis task.distinct(5))
  show ?thesis
    using assms(1) u n unfolding coordinated_def leave_def
    by (simp; blast)
qed

lemma step_coordinated: "coordinated s \<Longrightarrow> coordinated (step m s)"
proof (cases m)
  case (Link b)
  assume "coordinated s"
  then show ?thesis using Link by (simp add: coordinated_link)
next
  case (Finish t r)
  assume "coordinated s"
  then show ?thesis using Finish by (simp add: coordinated_finish)
next
  case (Run i)
  assume inv: "coordinated s"
  show ?thesis
  proof (cases "callers s i")
    case Entry
    then show ?thesis using Run inv by (simp add: coordinated_outside)
  next
    case Acquire
    then show ?thesis using Run inv by (simp add: coordinated_acquire)
  next
    case Held
    then show ?thesis using Run inv held_alone(1)[OF inv Held]
      by (simp add: coordinated_leave_held coordinated_spawn)
  next
    case (Joined t)
    then show ?thesis using inv unfolding coordinated_def by blast
  next
    case (Awaiting t)
    then show ?thesis using Run inv
      by (cases "tasks s t") (simp_all add: coordinated_leave_awaiting)
  next
    case (Left r)
    then show ?thesis using Run inv by simp
  qed
qed

lemma run_coordinated: "coordinated s \<Longrightarrow> coordinated (run ms s)"
  by (induction ms arbitrary: s) (simp_all add: step_coordinated)

lemma accounted_idle: "accounted idle"
  by (simp add: accounted_def idle_def)

lemma accounted_spawn:
  assumes "accounted s"
  shows "accounted (spawn i s)"
proof -
  have 1: "\<forall>t. next_task (spawn i s) \<le> t \<longrightarrow> tasks (spawn i s) t = Unborn"
    using assms unfolding accounted_def by (simp add: spawn_def)
  have 2: "\<exists>t. t < next_task (spawn i s) \<and> tasks (spawn i s) t = Finished (Raises e)"
    if l: "callers (spawn i s) j = Left (Raises e)" for j e
  proof -
    have "callers s j = Left (Raises e)"
      using l by (simp add: spawn_def split: if_splits)
    then obtain t where t: "t < next_task s" "tasks s t = Finished (Raises e)"
      using assms unfolding accounted_def by blast
    then have "t < next_task (spawn i s) \<and> tasks (spawn i s) t = Finished (Raises e)"
      by (simp add: spawn_def)
    then show ?thesis by blast
  qed
  show ?thesis unfolding accounted_def using 1 2 by blast
qed

lemma accounted_outcome:
  assumes "accounted s" "\<And>e. r = Raises e \<Longrightarrow> \<exists>t. tasks s t = Finished (Raises e)"
    "tasks s' = tasks s" "next_task s' = next_task s" "callers s' = (callers s)(i := Left r)"
  shows "accounted s'"
proof -
  have f: "\<exists>t. t < next_task s \<and> tasks s t = Finished (Raises e)" if re: "r = Raises e" for e
  proof -
    obtain t where t: "tasks s t = Finished (Raises e)" using assms(2)[OF re] by blast
    then have "t < next_task s" using assms(1) unfolding accounted_def
      by (metis not_le task.distinct(3))
    with t show ?thesis by blast
  qed
  show ?thesis using assms(1,3,4,5) f unfolding accounted_def by auto
qed

lemma accounted_place:
  assumes "accounted s" "\<And>r. p \<noteq> Left r"
  shows "accounted (s\<lparr>callers := (callers s)(i := p)\<rparr>)"
  using assms unfolding accounted_def by auto

lemma accounted_acquire:
  assumes "accounted s"
  shows "accounted (s\<lparr>locked := True, callers := (callers s)(i := Held)\<rparr>)"
  using assms unfolding accounted_def by auto

lemma accounted_finish:
  assumes "accounted s" "tasks s t = Running"
  shows "accounted (s\<lparr>tasks := (tasks s)(t := Finished r)\<rparr>)"
proof -
  have "t < next_task s" using assms unfolding accounted_def by (metis not_le task.distinct(1))
  then show ?thesis using assms unfolding accounted_def
    by (auto; metis task.distinct(5))
qed

lemma step_accounted: "accounted s \<Longrightarrow> accounted (step m s)"
proof (cases m)
  case (Link b)
  assume "accounted s"
  then show ?thesis using Link by (simp add: accounted_def)
next
  case (Finish t r)
  assume "accounted s"
  then show ?thesis using Finish by (simp add: accounted_finish)
next
  case (Run i)
  assume inv: "accounted s"
  have ret: "accounted (leave i Returns s)"
    by (rule accounted_outcome[OF inv, where r=Returns and i=i]) (simp_all add: leave_def)
  have ret': "accounted (s\<lparr>callers := (callers s)(i := Left Returns)\<rparr>)"
    by (rule accounted_outcome[OF inv, where r=Returns and i=i]) simp_all
  show ?thesis
  proof (cases "callers s i")
    case Entry
    then show ?thesis using Run inv ret' by (simp add: accounted_place)
  next
    case Acquire
    then show ?thesis using Run inv by (simp add: accounted_acquire)
  next
    case Held
    then show ?thesis using Run inv ret
      by (simp add: accounted_place accounted_spawn split: option.splits)
  next
    case (Joined t)
    then show ?thesis using Run inv ret
      by (simp add: accounted_spawn split: task.splits outcome.splits)
  next
    case (Awaiting t)
    show ?thesis
    proof (cases "tasks s t")
      case (Finished r)
      have "accounted (leave i r (s\<lparr>connection_task := None\<rparr>))"
        by (rule accounted_outcome[OF inv, where r=r and i=i])
          (use Finished in \<open>auto simp: leave_def\<close>)
      then show ?thesis using Run Awaiting Finished by simp
    qed (use Run Awaiting inv in simp_all)
  next
    case (Left r)
    then show ?thesis using Run inv by simp
  qed
qed

lemma run_accounted: "accounted s \<Longrightarrow> accounted (run ms s)"
  by (induction ms arbitrary: s) (simp_all add: step_accounted)

lemma run_snoc: "run (ms @ [m]) s = step m (run ms s)"
  by (induction ms arbitrary: s) simp_all

text \<open>
  C1, as stated, fails: under the schedule \<open>failed_then_retried\<close> caller 1 calls \<open>connect\<close>
  while the attempt of caller 0 is running; caller 0 leaves with the failure of that
  attempt, and caller 1 starts a second attempt and leaves with its success. Two tasks
  were created, and the two callers observed different outcomes.
\<close>

theorem connect_callers_observe_different_outcomes:
  "callers (run failed_then_retried idle) 0 = Left (Raises (DeviceConnectionError ''Timeout''))
   \<and> callers (run failed_then_retried idle) 1 = Left Returns
   \<and> callers (run (take 5 failed_then_retried) idle) 1 = Acquire
   \<and> tasks (run (take 5 failed_then_retried) idle) 0 = Running
   \<and> next_task (run failed_then_retried idle) = 2"
  by (simp add: failed_then_retried_def idle_def spawn_def leave_def)

text \<open>
  C1, amended. For every schedule of concurrent \<open>connect\<close> calls on one device object, at
  most one connection attempt is running at a time, and no caller ever joins an attempt
  it found in flight: the callers are serialised by the lock, which is held until the
  attempt has ended and its handle is cleared. A caller that holds the lock while the
  device is not connected (so also after a failed attempt of another caller) starts a new
  attempt of its own; one that holds the lock while the device is connected returns
  without an attempt. A caller whose own attempt has ended leaves with exactly the
  outcome of that attempt and frees the lock. A caller leaves in no other way: with
  success at a test of \<open>is_connected\<close>, or with the outcome of the attempt it awaited.
  Every failure a caller left with is the failure of a finished attempt. Concurrent
  callers need not observe the same outcome.
\<close>

theorem connect_attempts_exclusive:
  "(tasks (run ms idle) t = Running \<and> tasks (run ms idle) t' = Running \<longrightarrow> t = t')
   \<and> callers (run ms idle) i \<noteq> Joined u
   \<and> (callers (run ms idle) i = Held \<and> \<not> link (run ms idle) \<longrightarrow>
        callers (run (ms @ [Run i]) idle) i = Awaiting (next_task (run ms idle))
        \<and> tasks (run (ms @ [Run i]) idle) (next_task (run ms idle)) = Running
        \<and> tasks (run ms idle) (next_task (run ms idle)) = Unborn
        \<and> next_task (run (ms @ [Run i]) idle) = next_task (run ms idle) + 1)
   \<and> (callers (run ms idle) i = Held \<and> link (run ms idle) \<longrightarrow>
        callers (run (ms @ [Run i]) idle) i = Left Returns
        \<and> tasks (run (ms @ [Run i]) idle) = tasks (run ms idle))
   \<and> (callers (run ms idle) i = Awaiting t \<and> tasks (run ms idle) t = Finished r \<longrightarrow>
        callers (run (ms @ [Run i]) idle) i = Left r
        \<and> \<not> locked (run (ms @ [Run i]) idle)
        \<and> connection_task (run (ms @ [Run i]) idle) = None)
   \<and> (callers (run (ms @ [m]) idle) i = Left r \<and> callers (run ms idle) i \<noteq> Left r \<longrightarrow>
        m = Run i
        \<and> (r = Returns \<and> link (run ms idle)
              \<and> (callers (run ms idle) i = Entry \<or> callers (run ms idle) i = Held)
            \<or> (\<exists>a. callers (run ms idle) i = Awaiting a \<and> tasks (run ms idle) a = Finished r)))
   \<and> (callers (run ms idle) i = Left (Raises e) \<longrightarrow>
        (\<exists>a. a < next_task (run ms idle) \<and> tasks (run ms idle) a = Finished (Raises e)))"
proof -
  define s where "s = run ms idle"
  have c: "coordinated s" unfolding s_def
    by (rule run_coordinated) (rule coordinated_idle)
  have a: "accounted s" unfolding s_def
    by (rule run_accounted) (rule accounted_idle)
  have nj: "callers s j \<noteq> Joined b" for j b
    using c unfolding coordinated_def by blast
  have 1: "tasks s t = Running \<and> tasks s t' = Running \<longrightarrow> t = t'"
    using c unfolding coordinated_def by (metis option.inject)
  have 3: "callers s i = Held \<and> \<not> link s \<longrightarrow>
        callers (step (Run i) s) i = Awaiting (next_task s)
        \<and> tasks (step (Run i) s) (next_task s) = Running
        \<and> tasks s (next_task s) = Unborn
        \<and> next_task (step (Run i) s) = next_task s + 1"
  proof
    assume h: "callers s i = Held \<and> \<not> link s"
    then have "connection_task s = None" using held_alone(1)[OF c] by blast
    moreover have "tasks s (next_task s) = Unborn" using a unfolding accounted_def by blast
    ultimately show "callers (step (Run i) s) i = Awaiting (next_task s)
        \<and> tasks (step (Run i) s) (next_task s) = Running
        \<and> tasks s (next_task s) = Unborn
        \<and> next_task (step (Run i) s) = next_task s + 1"
      using h by (simp add: spawn_def)
  qed
  have 4: "callers s i = Held \<and> link s \<longrightarrow>
        callers (step (Run i) s) i = Left Returns \<and> tasks (step (Run i) s) = tasks s"
    by (simp add: leave_def)
  have 5: "callers s i = Awaiting t \<and> tasks s t = Finished r \<longrightarrow>
        callers (step (Run i) s) i = Left r \<and> \<not> locked (step (Run i) s)
        \<and> connection_task (step (Run i) s) = None"
    by (simp add: leave_def)
  have 6: "callers (step m s) i = Left r \<and> callers s i \<noteq> Left r \<longrightarrow>
        m = Run i
        \<and> (r = Returns \<and> link s \<and> (callers s i = Entry \<or> callers s i = Held)
            \<or> (\<exists>a. callers s i = Awaiting a \<and> tasks s a = Finished r))"
  proof
    assume h: "callers (step m s) i = Left r \<and> callers s i \<noteq> Left r"
    show "m = Run i
        \<and> (r = Returns \<and> link s \<and> (callers s i = Entry \<or> callers s i = Held)
            \<or> (\<exists>a. callers s i = Awaiting a \<and> tasks s a = Finished r))"
    proof (cases m)
      case (Link b)
      then show ?thesis using h by simp
    next
      case (Finish b q)
      then show ?thesis using h by (simp split: if_splits)
    next
      case (Run j)
      have other: "callers (step (Run j) s) k = callers s k" if "k \<noteq> j" for k
        using that
        by (cases "callers s j")
          (auto simp: spawn_def leave_def split: option.splits task.splits outcome.splits)
      have ji: "j = i" using h Run other[of i] by metis
      show ?thesis
      proof (cases "callers s i")
        case Entry
        then show ?thesis using h Run ji by (simp split: if_splits)
      next
        case Acquire
        then show ?thesis using h Run ji by (simp split: if_splits)
      next
        case Held
        then show ?thesis using h Run ji
          by (simp add: spawn_def leave_def split: if_splits option.splits)
      next
        case (Joined b)
        then show ?thesis using nj by blast
      next
        case (Awaiting b)
        then show ?thesis using h Run ji
          by (cases "tasks s b") (simp_all add: leave_def)
      next
        case (Left q)
        then show ?thesis using h Run ji by simp
      qed
    qed
  qed
  have 7: "callers s i = Left (Raises e) \<longrightarrow>
        (\<exists>a. a < next_task s \<and> tasks s a = Finished (Raises e))"
    using a unfolding accounted_def by blast
  show ?thesis
    using 1 nj[of i u] 3 4 5 6 7 unfolding s_def run_snoc by blast
qed

theorem connect_attempts_exclusive_witness:
  "tasks (run (take 5 failed_then_retried) idle) 0 = Running
   \<and> callers (run (take 5 failed_then_retried) idle) 1 \<noteq> Joined 0
   \<and> tasks (run (take 5 failed_then_retried) idle) 1 \<noteq> Running
   \<and> callers (run (take 8 failed_then_retried) idle) 1 = Held
   \<and> \<not> link (run (take 8 failed_then_retried) idle)
   \<and> next_task (run (take 8 failed_then_retried) idle) = 1
   \<and> callers (run (take 8 failed_then_retried @ [Run 1]) idle) 1 = Awaiting 1
   \<and> tasks (run (take 8 failed_then_retried @ [Run 1]) idle) 1 = Running
   \<and> callers (run (take 6 failed_then_retried) idle) 0 = Awaiting 0
   \<and> tasks (run (take 6 failed_then_retried) idle) 0 =
        Finished (Raises (DeviceConnectionError ''Timeout''))
   \<and> callers (run (take 6 failed_then_retried @ [Run 0]) idle) 0 =
        Left (Raises (DeviceConnectionError ''Timeout''))
   \<and> \<not> locked (run (take 6 failed_then_retried @ [Run 0]) idle)
   \<and> callers (run [Run 0, Run 0, Link True] idle) 0 = Held
   \<and> link (run [Run 0, Run 0, Link True] idle)
   \<and> callers (run ([Run 0, Run 0, Link True] @ [Run 0]) idle) 0 = Left Returns
   \<and> callers (run failed_then_retried idle) 0 =
        Left (Raises (DeviceConnectionError ''Timeout''))
   \<and> tasks (run failed_then_retried idle) 0 =
        Finished (Raises (DeviceConnectionError ''Timeout''))"
proof -
  note defs = failed_then_retried_def idle_def spawn_def leave_def
  have running: "tasks (run (take 5 failed_then_retried) idle) 0 = Running"
    "tasks (run (take 5 failed_then_retried) idle) 1 \<noteq> Running"
    by (simp_all add: defs)
  have no_join: "callers (run (take 5 failed_then_retried) idle) 1 \<noteq> Joined 0"
    by (rule connect_attempts_exclusive[THEN conjunct2, THEN conjunct1])
  have held: "callers (run (take 8 failed_then_retried) idle) 1 = Held
      \<and> \<not> link (run (take 8 failed_then_retried) idle)"
    by (simp add: defs)
  have fresh: "next_task (run (take 8 failed_then_retried) idle) = 1"
    by (simp add: defs)
  have started:
    "callers (run (take 8 failed_then_retried @ [Run 1]) idle) 1 =
       Awaiting (next_task (run (take 8 failed_then_retried) idle))
     \<and> tasks (run (take 8 failed_then_retried @ [Run 1]) idle)
           (next_task (run (take 8 failed_then_retried) idle)) = Running
     \<and> tasks (run (take 8 failed_then_retried) idle)
           (next_task (run (take 8 failed_then_retried) idle)) = Unborn
     \<and> next_task (run (take 8 failed_then_retried @ [Run 1]) idle) =
           next_task (run (take 8 failed_then_retried) idle) + 1"
    by (rule connect_attempts_exclusive[THEN conjunct2, THEN conjunct2, THEN conjunct1,
          THEN mp, OF held])
  have awaited: "callers (run (take 6 failed_then_retried) idle) 0 = Awaiting 0
      \<and> tasks (run (take 6 failed_then_retried) idle) 0 =
          Finished (Raises (DeviceConnectionError ''Timeout''))"
    by (simp add: defs)
  have left: "callers (run (take 6 failed_then_retried @ [Run 0]) idle) 0 =
        Left (Raises (DeviceConnectionError ''Timeout''))
      \<and> \<not> locked (run (take 6 failed_then_retried @ [Run 0]) idle)
      \<and> connection_task (run (take 6 failed_then_retried @ [Run 0]) idle) = None"
    by (rule connect_attempts_exclusive[THEN conjunct2, THEN conjunct2, THEN conjunct2,
          THEN conjunct2, THEN conjunct1, THEN mp, OF awaited])
  have connected: "callers (run [Run 0, Run 0, Link True] idle) 0 = Held
      \<and> link (run [Run 0, Run 0, Link True] idle)"
    by (simp add: defs)
  have returned: "callers (run ([Run 0, Run 0, Link True] @ [Run 0]) idle) 0 = Left Returns
      \<and> tasks (run ([Run 0, Run 0, Link True] @ [Run 0]) idle) =
          tasks (run [Run 0, Run 0, Link True] idle)"
    by (rule connect_attempts_exclusive[THEN conjunct2, THEN conjunct2, THEN conjunct2,
          THEN conjunct1, THEN mp, OF connected])
  have final: "callers (run failed_then_retried idle) 0 =
        Left (Raises (DeviceConnectionError ''Timeout''))"
    "tasks (run failed_then_retried idle) 0 =
        Finished (Raises (DeviceConnectionError ''Timeout''))"
    by (simp_all add: defs)
  show ?thesis
    using running no_join held fresh started awaited left connected returned final
    by simp
qed

end
